theory Spec2Isabelle
  imports
    Complex_Main
    "HOL-Library.Multiset"
    "HOL-Library.Product_Lexorder"
    "HOL-Library.List_Lexorder"
    "HOL-Library.Char_ord"
    "HOL-Library.Sublist"
    "HOL-Library.AList"
begin

section \<open>Cursor pagination: \<open>repositories/products/productRepository.ts\<close>\<close>

text \<open>
  The \<open>products\<close> table (\<open>productSchema.ts\<close>) is a list of rows. \<open>id\<close> is the primary key, a
  \<open>BIGINT UNSIGNED\<close>, \<open>price\<close> a \<open>DECIMAL(10,2)\<close>, \<open>createdAt\<close> a \<open>TIMESTAMP\<close> (here the number
  of milliseconds a JavaScript \<open>Date\<close> holds). A \<open>VARCHAR\<close> is a \<open>string\<close>, compared
  lexicographically.

  The rows that \<open>listProducts\<close> returns carry \<open>Number(r.id)\<close>, a JavaScript number: \<open>toDouble\<close> is
  the double nearest to a natural number, ties going to the even significand. It is the number
  itself up to \<open>2^53 = 9007199254740992\<close>, and no longer so from \<open>2^53 + 1\<close> on.
\<close>

record ProductRow =
  p_id :: nat
  p_name :: string
  p_description :: "string option"
  p_price :: rat
  p_category :: string
  p_createdAt :: int

function bitLength :: "nat \<Rightarrow> nat" where
  "bitLength n = (if n = 0 then 0 else Suc (bitLength (n div 2)))"
  by pat_completeness auto
termination
  by (relation "measure id") auto

declare bitLength.simps [simp del]

definition toDouble :: "nat \<Rightarrow> nat" where
  "toDouble n =
     (let k = bitLength n - 53; q = n div 2 ^ k; r = n mod 2 ^ k
      in if 2 * r < 2 ^ k \<or> (2 * r = 2 ^ k \<and> even q) then q * 2 ^ k else (q + 1) * 2 ^ k)"

datatype ProductSortBy = CreatedAt | Price | Name

datatype SortOrder = Asc | Desc

text \<open>
  The value of a sort column, which is also what a cursor carries in \<open>v\<close>. The source writes a
  date into the cursor as ISO-8601 text (\<open>toISOString\<close>) and reads it back with \<open>new Date\<close>, and
  writes a price as its decimal text (\<open>String(r.price)\<close>), which the SQL engine reads back as a
  number: each pair is taken to be inverse to each other, so the cursor holds the column's value.
\<close>

datatype colval = DateV int | NumV rat | TextV string

fun colval_le :: "colval \<Rightarrow> colval \<Rightarrow> bool" where
  "colval_le (DateV a) (DateV b) = (a \<le> b)"
| "colval_le (DateV a) _ = True"
| "colval_le (NumV a) (DateV b) = False"
| "colval_le (NumV a) (NumV b) = (a \<le> b)"
| "colval_le (NumV a) (TextV b) = True"
| "colval_le (TextV a) (TextV b) = (a \<le> b)"
| "colval_le (TextV a) _ = False"

instantiation colval :: linorder
begin

definition less_eq_colval :: "colval \<Rightarrow> colval \<Rightarrow> bool" where
  "less_eq_colval x y = colval_le x y"

definition less_colval :: "colval \<Rightarrow> colval \<Rightarrow> bool" where
  "less_colval x y = (colval_le x y \<and> \<not> colval_le y x)"

instance
proof
  fix x y z :: colval
  show "(x < y) = (x \<le> y \<and> \<not> y \<le> x)"
    by (simp add: less_eq_colval_def less_colval_def)
  show "x \<le> x"
    by (cases x) (simp_all add: less_eq_colval_def)
  show "x \<le> y \<Longrightarrow> y \<le> z \<Longrightarrow> x \<le> z"
    by (cases x; cases y; cases z) (simp_all add: less_eq_colval_def)
  show "x \<le> y \<Longrightarrow> y \<le> x \<Longrightarrow> x = y"
    by (cases x; cases y) (simp_all add: less_eq_colval_def)
  show "x \<le> y \<or> y \<le> x"
    by (cases x; cases y) (auto simp add: less_eq_colval_def)
qed

end

record Cursor =
  cur_v :: colval
  cur_id :: rat

record ProductListQuery =
  q_limit :: int
  q_sortBy :: ProductSortBy
  q_sortOrder :: SortOrder
  q_q :: "string option"
  q_category :: "string option"
  q_minPrice :: "rat option"
  q_maxPrice :: "rat option"
  q_createdFrom :: "int option"
  q_createdTo :: "int option"
  q_cursor :: "Cursor option"

record ProductPage =
  items :: "ProductRow list"
  hasMore :: bool
  nextCursor :: "Cursor option"

text \<open>
  \<open>if (query.q)\<close> and \<open>if (query.category)\<close> test a string for truthiness: \<open>undefined\<close> and the
  empty string both fail the test.
\<close>

fun truthy :: "string option \<Rightarrow> bool" where
  "truthy None = False"
| "truthy (Some s) = (s \<noteq> [])"

text \<open>The column that \<open>sortColumn\<close> names, read in a row.\<close>

fun sortColumn :: "ProductSortBy \<Rightarrow> ProductRow \<Rightarrow> colval" where
  "sortColumn CreatedAt r = DateV (p_createdAt r)"
| "sortColumn Price r = NumV (p_price r)"
| "sortColumn Name r = TextV (p_name r)"

text \<open>\<open>opForCursor\<close>: greater-than for ascending order, less-than for descending order.\<close>

fun opForCursor :: "SortOrder \<Rightarrow> ('a::linorder) \<Rightarrow> 'a \<Rightarrow> bool" where
  "opForCursor Asc a b = (a > b)"
| "opForCursor Desc a b = (a < b)"

text \<open>
  The conditions pushed on \<open>where\<close>, in the source's order. \<open>ft\<close> is the engine's full-text
  match \<open>MATCH(name, description) AGAINST (? IN NATURAL LANGUAGE MODE)\<close>.
\<close>

definition whereClauses ::
  "(string \<Rightarrow> ProductRow \<Rightarrow> bool) \<Rightarrow> ProductListQuery \<Rightarrow> (ProductRow \<Rightarrow> bool) list" where
  "whereClauses ft query =
     (if truthy (q_q query) then [ft (the (q_q query))] else []) @
     (if truthy (q_category query) then [\<lambda>r. p_category r = the (q_category query)] else []) @
     (case q_minPrice query of None \<Rightarrow> [] | Some m \<Rightarrow> [\<lambda>r. p_price r \<ge> m]) @
     (case q_maxPrice query of None \<Rightarrow> [] | Some m \<Rightarrow> [\<lambda>r. p_price r \<le> m]) @
     (case q_createdFrom query of None \<Rightarrow> [] | Some t \<Rightarrow> [\<lambda>r. p_createdAt r \<ge> t]) @
     (case q_createdTo query of None \<Rightarrow> [] | Some t \<Rightarrow> [\<lambda>r. p_createdAt r \<le> t]) @
     (case q_cursor query of
        None \<Rightarrow> []
      | Some c \<Rightarrow>
          [\<lambda>r. opForCursor (q_sortOrder query) (sortColumn (q_sortBy query) r) (cur_v c) \<or>
                (sortColumn (q_sortBy query) r = cur_v c \<and>
                 opForCursor (q_sortOrder query) (of_nat (p_id r)) (cur_id c))])"

text \<open>
  The SQL engine: \<open>WHERE\<close> keeps the rows that pass every condition, \<open>ORDER BY col o, id o\<close>
  sorts by the pair (ascending, or its reverse), \<open>LIMIT n\<close> keeps the first \<open>n\<close> rows.
\<close>

fun orderBy :: "SortOrder \<Rightarrow> (ProductRow \<Rightarrow> 'k::linorder) \<Rightarrow> ProductRow list \<Rightarrow> ProductRow list" where
  "orderBy Asc key rows = sort_key key rows"
| "orderBy Desc key rows = rev (sort_key key rows)"

definition sqlQuery ::
  "(ProductRow \<Rightarrow> bool) list \<Rightarrow> SortOrder \<Rightarrow> ProductSortBy \<Rightarrow> int \<Rightarrow> ProductRow list \<Rightarrow> ProductRow list" where
  "sqlQuery wh ord sb n tbl =
     take (nat n) (orderBy ord (\<lambda>r. (sortColumn sb r, p_id r)) (filter (\<lambda>r. list_all (\<lambda>p. p r) wh) tbl))"

text \<open>\<open>rows.slice(0, e)\<close>: a negative end counts from the end of the array.\<close>

definition slice0 :: "'a list \<Rightarrow> int \<Rightarrow> 'a list" where
  "slice0 xs e = (if e < 0 then take (nat (int (length xs) + e)) xs else take (nat e) xs)"

definition listProducts ::
  "(string \<Rightarrow> ProductRow \<Rightarrow> bool) \<Rightarrow> ProductRow list \<Rightarrow> ProductListQuery \<Rightarrow> ProductPage" where
  "listProducts ft pool query =
     (let limitPlusOne = min 101 (max 1 (q_limit query + 1));
          rows = sqlQuery (whereClauses ft query) (q_sortOrder query) (q_sortBy query) limitPlusOne pool;
          items = map (\<lambda>r. r\<lparr> p_id := toDouble (p_id r) \<rparr>) (slice0 rows (q_limit query));
          hasMore = (int (length rows) > q_limit query)
      in \<lparr> items = items,
           hasMore = hasMore,
           nextCursor =
             (if hasMore \<and> items \<noteq> []
              then Some \<lparr> cur_v = sortColumn (q_sortBy query) (last items),
                          cur_id = of_nat (p_id (last items)) \<rparr>
              else None) \<rparr>)"

text \<open>
  The client's walk: call \<open>listProducts\<close>, feed \<open>nextCursor\<close> back in and go on while
  \<open>hasMore\<close> holds. The first argument bounds the number of pages fetched; \<open>None\<close> says that
  the bound was reached before a page with \<open>hasMore = false\<close>.
\<close>

fun walkPages ::
  "nat \<Rightarrow> (string \<Rightarrow> ProductRow \<Rightarrow> bool) \<Rightarrow> ProductRow list \<Rightarrow> ProductListQuery \<Rightarrow>
   Cursor option \<Rightarrow> ProductRow list option" where
  "walkPages 0 ft pool query c = None"
| "walkPages (Suc n) ft pool query c =
     (let page = listProducts ft pool (query\<lparr> q_cursor := c \<rparr>)
      in if hasMore page
         then (case walkPages n ft pool query (nextCursor page) of
                 None \<Rightarrow> None
               | Some rest \<Rightarrow> Some (items page @ rest))
         else Some (items page))"

text \<open>
  What the claims speak of: a row matches the filters of a query (the cursor apart), and one row
  comes strictly before another in the requested \<open>(sortColumn, id)\<close> order.
\<close>

definition matchesFilters :: "(string \<Rightarrow> ProductRow \<Rightarrow> bool) \<Rightarrow> ProductListQuery \<Rightarrow> ProductRow \<Rightarrow> bool" where
  "matchesFilters ft query r =
     ((truthy (q_q query) \<longrightarrow> ft (the (q_q query)) r) \<and>
      (truthy (q_category query) \<longrightarrow> p_category r = the (q_category query)) \<and>
      (case q_minPrice query of None \<Rightarrow> True | Some m \<Rightarrow> m \<le> p_price r) \<and>
      (case q_maxPrice query of None \<Rightarrow> True | Some m \<Rightarrow> p_price r \<le> m) \<and>
      (case q_createdFrom query of None \<Rightarrow> True | Some t \<Rightarrow> t \<le> p_createdAt r) \<and>
      (case q_createdTo query of None \<Rightarrow> True | Some t \<Rightarrow> p_createdAt r \<le> t))"

fun before :: "SortOrder \<Rightarrow> ProductSortBy \<Rightarrow> ProductRow \<Rightarrow> ProductRow \<Rightarrow> bool" where
  "before Asc sb a b =
     (sortColumn sb a < sortColumn sb b \<or> (sortColumn sb a = sortColumn sb b \<and> p_id a < p_id b))"
| "before Desc sb a b =
     (sortColumn sb a > sortColumn sb b \<or> (sortColumn sb a = sortColumn sb b \<and> p_id a > p_id b))"

subsection \<open>The rows a walk is expected to return\<close>

text \<open>
  Auxiliary notions of the proofs: the cursor minted from a row, the seek condition of the
  source as a predicate, the matching rows in the requested order, and the cursor a client
  holds after it has received the first \<open>k\<close> of them.
\<close>

lemma bitLength_le: "n < 2 ^ k \<Longrightarrow> bitLength n \<le> k"
proof (induction k arbitrary: n)
  case 0
  then show ?case by (subst bitLength.simps) simp
next
  case (Suc k)
  show ?case
  proof (cases "n = 0")
    case True
    then show ?thesis by (subst bitLength.simps) simp
  next
    case False
    have "n div 2 < 2 ^ k" using Suc.prems by auto
    then have "bitLength (n div 2) \<le> k" by (rule Suc.IH)
    then show ?thesis using False by (subst bitLength.simps) simp
  qed
qed

lemma bitLength_pow: "bitLength (2 ^ k) = Suc k"
proof (induction k)
  case 0
  show ?case by (subst bitLength.simps, subst bitLength.simps) simp
next
  case (Suc k)
  then show ?case by (subst bitLength.simps) simp
qed

lemma bitLength_2_53: "bitLength 9007199254740992 = 54"
  using bitLength_pow[of 53] by simp

lemma toDouble_exact: "n \<le> 9007199254740992 \<Longrightarrow> toDouble n = n"
proof (cases "n = 9007199254740992")
  case True
  then show ?thesis by (simp add: toDouble_def Let_def bitLength_2_53)
next
  case False
  assume "n \<le> 9007199254740992"
  with False have "n < 2 ^ 53" by simp
  then have "bitLength n \<le> 53" by (rule bitLength_le)
  then show ?thesis by (simp add: toDouble_def Let_def)
qed

lemma toDouble_2_53_1: "toDouble 9007199254740993 = 9007199254740992"
proof -
  have "bitLength (9007199254740993::nat) = Suc (bitLength 4503599627370496)"
    by (subst bitLength.simps) simp
  then have "bitLength (9007199254740993::nat) = 54" using bitLength_pow[of 52] by simp
  then show ?thesis by (simp add: toDouble_def Let_def)
qed

definition cursorOf :: "ProductSortBy \<Rightarrow> ProductRow \<Rightarrow> Cursor" where
  "cursorOf sb r = \<lparr> cur_v = sortColumn sb r, cur_id = of_nat (p_id r) \<rparr>"

definition seekAfter :: "SortOrder \<Rightarrow> ProductSortBy \<Rightarrow> Cursor \<Rightarrow> ProductRow \<Rightarrow> bool" where
  "seekAfter ord sb c r =
     (opForCursor ord (sortColumn sb r) (cur_v c) \<or>
      (sortColumn sb r = cur_v c \<and> opForCursor ord (of_nat (p_id r)) (cur_id c)))"

lemma seekAfter_cursorOf: "seekAfter ord sb (cursorOf sb a) r = before ord sb a r"
  by (cases ord) (auto simp: seekAfter_def cursorOf_def)

lemma before_asym: "before ord sb a b \<Longrightarrow> \<not> before ord sb b a"
  by (cases ord) auto

lemma where_iff:
  "list_all (\<lambda>p. p r) (whereClauses ft query) =
     (matchesFilters ft query r \<and>
      (case q_cursor query of None \<Rightarrow> True
       | Some c \<Rightarrow> seekAfter (q_sortOrder query) (q_sortBy query) c r))"
  by (auto simp: whereClauses_def matchesFilters_def seekAfter_def split: option.splits)

lemma orderBy_filter: "orderBy ord key (filter P xs) = filter P (orderBy ord key xs)"
  by (cases ord) (simp_all add: filter_sort flip: rev_filter)

lemma before_key:
  "before Asc sb a b = ((sortColumn sb a, p_id a) < (sortColumn sb b, p_id b))"
  "before Desc sb a b = ((sortColumn sb b, p_id b) < (sortColumn sb a, p_id a))"
  by (auto simp: less_prod_def')

lemma sorted_orderBy:
  assumes "distinct (map p_id xs)"
  shows "sorted_wrt (before ord sb) (orderBy ord (\<lambda>r. (sortColumn sb r, p_id r)) xs)"
proof -
  let ?key = "\<lambda>r. (sortColumn sb r, p_id r)"
  let ?S = "sort_key ?key xs"
  have "mset (map p_id ?S) = mset (map p_id xs)" by simp
  then have "distinct (map p_id ?S)"
    using assms mset_eq_imp_distinct_iff by blast
  then have "distinct (map ?key ?S)"
    by (auto simp: distinct_map inj_on_def)
  moreover have "sorted (map ?key ?S)" by (rule sorted_sort_key)
  ultimately have "sorted_wrt (<) (map ?key ?S)" by (simp add: strict_sorted_iff)
  then have asc: "sorted_wrt (\<lambda>a b. ?key a < ?key b) ?S" by (simp add: sorted_wrt_map)
  show ?thesis
  proof (cases ord)
    case Asc
    with asc show ?thesis by (simp add: before_key[abs_def])
  next
    case Desc
    with asc show ?thesis by (simp add: before_key[abs_def] sorted_wrt_rev)
  qed
qed

lemma filter_after_nth:
  assumes "sorted_wrt R S" "\<And>a b. R a b \<Longrightarrow> \<not> R b a" "i < length S"
  shows "filter (R (S ! i)) S = drop (Suc i) S"
proof -
  have 1: "filter (R (S ! i)) (take (Suc i) S) = []"
  proof -
    have "\<not> R (S ! i) x" if "x \<in> set (take (Suc i) S)" for x
    proof -
      from that obtain j where j: "j < Suc i" "x = S ! j"
        using assms(3) by (auto simp: in_set_conv_nth)
      show ?thesis
      proof (cases "j = i")
        case True
        then show ?thesis using assms(2) j by blast
      next
        case False
        then have "R (S ! j) (S ! i)"
          using j assms(1,3) by (simp add: sorted_wrt_nth_less)
        then show ?thesis using assms(2) j by blast
      qed
    qed
    then show ?thesis by (simp add: filter_empty_conv)
  qed
  have 2: "filter (R (S ! i)) (drop (Suc i) S) = drop (Suc i) S"
  proof -
    have "R (S ! i) x" if "x \<in> set (drop (Suc i) S)" for x
    proof -
      from that obtain j where j: "j < length S - Suc i" "x = S ! (Suc i + j)"
        by (auto simp: in_set_conv_nth)
      then show ?thesis using assms(1) by (simp add: sorted_wrt_nth_less)
    qed
    then show ?thesis by (simp add: filter_id_conv)
  qed
  have "filter (R (S ! i)) S = filter (R (S ! i)) (take (Suc i) S @ drop (Suc i) S)"
    by simp
  also have "\<dots> = drop (Suc i) S" unfolding filter_append 1 2 by simp
  finally show ?thesis .
qed

definition sortedMatches ::
  "(string \<Rightarrow> ProductRow \<Rightarrow> bool) \<Rightarrow> ProductRow list \<Rightarrow> ProductListQuery \<Rightarrow> ProductRow list" where
  "sortedMatches ft tbl query =
     orderBy (q_sortOrder query) (\<lambda>r. (sortColumn (q_sortBy query) r, p_id r))
       (filter (matchesFilters ft query) tbl)"

definition cursorAt :: "ProductSortBy \<Rightarrow> ProductRow list \<Rightarrow> nat \<Rightarrow> Cursor option" where
  "cursorAt sb S k = (if k = 0 then None else Some (cursorOf sb (S ! (k - 1))))"

lemma matchesFilters_cursor [simp]: "matchesFilters ft (query\<lparr>q_cursor := c\<rparr>) = matchesFilters ft query"
  by (simp add: matchesFilters_def fun_eq_iff)

lemma rows_at:
  assumes d: "distinct (map p_id tbl)" and k: "k \<le> length (sortedMatches ft tbl query)"
  shows "orderBy (q_sortOrder query) (\<lambda>r. (sortColumn (q_sortBy query) r, p_id r))
           (filter (\<lambda>r. list_all (\<lambda>p. p r)
              (whereClauses ft (query\<lparr>q_cursor := cursorAt (q_sortBy query) (sortedMatches ft tbl query) k\<rparr>))) tbl)
         = drop k (sortedMatches ft tbl query)"
proof -
  let ?S = "sortedMatches ft tbl query"
  let ?ord = "q_sortOrder query" and ?sb = "q_sortBy query"
  have dm: "distinct (map p_id (filter (matchesFilters ft query) tbl))"
    using d by (simp add: distinct_map_filter)
  have sorted: "sorted_wrt (before ?ord ?sb) ?S"
    unfolding sortedMatches_def by (rule sorted_orderBy[OF dm])
  show ?thesis
  proof (cases "k = 0")
    case True
    then show ?thesis
      by (simp add: where_iff cursorAt_def sortedMatches_def)
  next
    case False
    then have i: "k - 1 < length ?S" "Suc (k - 1) = k" using k by auto
    have "filter (\<lambda>r. list_all (\<lambda>p. p r)
              (whereClauses ft (query\<lparr>q_cursor := cursorAt ?sb ?S k\<rparr>))) tbl
        = filter (before ?ord ?sb (?S ! (k - 1))) (filter (matchesFilters ft query) tbl)"
      using False by (simp add: where_iff cursorAt_def seekAfter_cursorOf conj_commute)
    then have "orderBy ?ord (\<lambda>r. (sortColumn ?sb r, p_id r))
           (filter (\<lambda>r. list_all (\<lambda>p. p r)
              (whereClauses ft (query\<lparr>q_cursor := cursorAt ?sb ?S k\<rparr>))) tbl)
        = filter (before ?ord ?sb (?S ! (k - 1))) ?S"
      by (simp add: orderBy_filter sortedMatches_def)
    also have "\<dots> = drop (Suc (k - 1)) ?S"
      by (rule filter_after_nth[OF sorted before_asym i(1)])
    finally show ?thesis using i by simp
  qed
qed

lemma set_sortedMatches: "set (sortedMatches ft tbl query) \<subseteq> set tbl"
  by (cases "q_sortOrder query") (auto simp: sortedMatches_def)

lemma page_at:
  assumes d: "distinct (map p_id tbl)" and k: "k \<le> length (sortedMatches ft tbl query)"
    and L: "1 \<le> q_limit query" "q_limit query \<le> 100"
    and safe: "\<forall>r \<in> set tbl. p_id r \<le> 9007199254740992"
  shows "listProducts ft tbl (query\<lparr>q_cursor := cursorAt (q_sortBy query) (sortedMatches ft tbl query) k\<rparr>)
         = \<lparr> items = take (nat (q_limit query)) (drop k (sortedMatches ft tbl query)),
             hasMore = (k + nat (q_limit query) < length (sortedMatches ft tbl query)),
             nextCursor = (if k + nat (q_limit query) < length (sortedMatches ft tbl query)
                           then cursorAt (q_sortBy query) (sortedMatches ft tbl query) (k + nat (q_limit query))
                           else None) \<rparr>"
proof -
  let ?S = "sortedMatches ft tbl query"
  let ?L = "nat (q_limit query)"
  define query' where "query' = query\<lparr>q_cursor := cursorAt (q_sortBy query) ?S k\<rparr>"
  have f: "q_limit query' = q_limit query" "q_sortBy query' = q_sortBy query"
    "q_sortOrder query' = q_sortOrder query"
    by (simp_all add: query'_def)
  have lp: "min 101 (max 1 (q_limit query + 1)) = q_limit query + 1" using L by simp
  have rows: "sqlQuery (whereClauses ft query')
          (q_sortOrder query) (q_sortBy query) (q_limit query + 1) tbl = take (Suc ?L) (drop k ?S)"
    using rows_at[OF d k] L by (simp add: sqlQuery_def nat_add_distrib query'_def)
  have sl: "slice0 (take (Suc ?L) (drop k ?S)) (q_limit query) = take ?L (drop k ?S)"
    using L by (simp add: slice0_def min_def)
  have "r\<lparr> p_id := toDouble (p_id r) \<rparr> = r" if "r \<in> set (take ?L (drop k ?S))" for r
  proof -
    have "r \<in> set ?S" using that by (meson in_set_dropD in_set_takeD)
    then have "p_id r \<le> 9007199254740992" using safe set_sortedMatches[of ft tbl query] by auto
    then show ?thesis by (simp add: toDouble_exact)
  qed
  then have "map (\<lambda>r. r\<lparr> p_id := toDouble (p_id r) \<rparr>) (take ?L (drop k ?S)) = take ?L (drop k ?S)"
    by (simp add: map_idI)
  then have it: "map (\<lambda>r. r\<lparr> p_id := toDouble (p_id r) \<rparr>)
                   (slice0 (take (Suc ?L) (drop k ?S)) (q_limit query)) = take ?L (drop k ?S)"
    by (simp add: sl)
  have hm: "(int (length (take (Suc ?L) (drop k ?S))) > q_limit query) = (k + ?L < length ?S)"
    using L by auto
  have lastc: "take ?L (drop k ?S) \<noteq> [] \<and> last (take ?L (drop k ?S)) = ?S ! (k + ?L - 1)"
    if "k + ?L < length ?S"
  proof -
    have len: "length (take ?L (drop k ?S)) = ?L" using that by simp
    have Lpos: "0 < ?L" using L by simp
    then have ne: "take ?L (drop k ?S) \<noteq> []" using len by auto
    have "last (take ?L (drop k ?S)) = take ?L (drop k ?S) ! (?L - 1)"
      using ne len by (simp add: last_conv_nth)
    also have "\<dots> = drop k ?S ! (?L - 1)" using Lpos by simp
    also have "\<dots> = ?S ! (k + (?L - 1))" using that by simp
    also have "k + (?L - 1) = k + ?L - 1" using Lpos by simp
    finally show ?thesis using ne by simp
  qed
  have "listProducts ft tbl query'
         = \<lparr> items = take ?L (drop k ?S), hasMore = (k + ?L < length ?S),
             nextCursor = (if k + ?L < length ?S then cursorAt (q_sortBy query) ?S (k + ?L) else None) \<rparr>"
  proof -
    have rows': "sqlQuery (whereClauses ft query') (q_sortOrder query) (q_sortBy query)
          (min 101 (max 1 (q_limit query + 1))) tbl = take (Suc ?L) (drop k ?S)"
      unfolding lp by (rule rows)
    have hm: "(int (length (take (Suc ?L) (drop k ?S))) > q_limit query) = (k + ?L < length ?S)"
      using L by auto
    show ?thesis
      unfolding listProducts_def Let_def f
      unfolding rows' it hm
      using lastc by (simp add: cursorAt_def cursorOf_def)
  qed
  then show ?thesis by (simp add: query'_def)
qed

lemma walk_from:
  assumes d: "distinct (map p_id tbl)" and L: "1 \<le> q_limit query" "q_limit query \<le> 100"
    and safe: "\<forall>r \<in> set tbl. p_id r \<le> 9007199254740992"
  shows "k \<le> length (sortedMatches ft tbl query) \<Longrightarrow> length (sortedMatches ft tbl query) - k < n \<Longrightarrow>
         walkPages n ft tbl query (cursorAt (q_sortBy query) (sortedMatches ft tbl query) k)
           = Some (drop k (sortedMatches ft tbl query))"
proof (induction n arbitrary: k)
  case 0
  then show ?case by simp
next
  case (Suc n)
  let ?S = "sortedMatches ft tbl query"
  let ?L = "nat (q_limit query)"
  have Lpos: "0 < ?L" using L by simp
  note pg = page_at[OF d Suc.prems(1) L safe]
  show ?case
  proof (cases "k + ?L < length ?S")
    case True
    then have "walkPages n ft tbl query (cursorAt (q_sortBy query) ?S (k + ?L)) = Some (drop (k + ?L) ?S)"
      using Suc.prems Lpos by (intro Suc.IH) auto
    moreover have "take ?L (drop k ?S) @ drop (k + ?L) ?S = drop k ?S"
    proof -
      have "take ?L (drop k ?S) @ drop ?L (drop k ?S) = drop k ?S"
        by (rule append_take_drop_id)
      then show ?thesis by (simp add: add.commute)
    qed
    ultimately show ?thesis using True by (simp add: pg Let_def)
  next
    case False
    then show ?thesis by (simp add: pg Let_def)
  qed
qed


subsection \<open>The example scenario\<close>

definition exampleRow :: "string \<Rightarrow> string option \<Rightarrow> string \<Rightarrow> int \<Rightarrow> nat \<Rightarrow> rat \<Rightarrow> ProductRow" where
  "exampleRow nm d c t i p =
     \<lparr> p_id = i, p_name = nm, p_description = d, p_price = p, p_category = c, p_createdAt = t \<rparr>"

definition exampleTable :: "(nat \<Rightarrow> rat \<Rightarrow> ProductRow) \<Rightarrow> ProductRow list" where
  "exampleTable row = [row 1 10, row 2 10, row 3 20, row 4 5]"

definition exampleQuery :: ProductListQuery where
  "exampleQuery =
     \<lparr> q_limit = 2, q_sortBy = Price, q_sortOrder = Asc, q_q = None, q_category = None,
       q_minPrice = None, q_maxPrice = None, q_createdFrom = None, q_createdTo = None,
       q_cursor = None \<rparr>"

text \<open>
  Claim C2. With the rows \<open>(id, price) = (1,10), (2,10), (3,20), (4,5)\<close> (whatever their other
  columns hold), \<open>limit = 2\<close>, \<open>sortBy = price\<close>, \<open>sortOrder = asc\<close> and no filters, the first page
  of \<open>listProducts\<close> is \<open>[(4,5), (1,10)]\<close> with \<open>hasMore = true\<close> and
  \<open>nextCursor = {v: 10, id: 1}\<close>, and the call with that cursor returns \<open>[(2,10), (3,20)]\<close>
  with \<open>hasMore = false\<close> and \<open>nextCursor = null\<close>.
\<close>

theorem example_scenario_pages:
  "listProducts ft (exampleTable (exampleRow nm d c t)) exampleQuery =
     \<lparr> items = [exampleRow nm d c t 4 5, exampleRow nm d c t 1 10], hasMore = True,
       nextCursor = Some \<lparr> cur_v = NumV 10, cur_id = 1 \<rparr> \<rparr> \<and>
   listProducts ft (exampleTable (exampleRow nm d c t))
       (exampleQuery\<lparr> q_cursor := Some \<lparr> cur_v = NumV 10, cur_id = 1 \<rparr> \<rparr>) =
     \<lparr> items = [exampleRow nm d c t 2 10, exampleRow nm d c t 3 20], hasMore = False,
       nextCursor = None \<rparr>"
  by (simp add: listProducts_def sqlQuery_def whereClauses_def exampleTable_def exampleQuery_def
      exampleRow_def slice0_def less_eq_prod_def less_eq_colval_def less_colval_def Let_def
      toDouble_exact)

subsection \<open>Identifiers beyond \<open>2^53\<close>\<close>

text \<open>
  Two rows of the same price whose identifiers are \<open>2^53 + 1\<close> and \<open>2^53 + 2\<close>, and the example
  query with \<open>limit = 1\<close>.
\<close>

definition bigIdTable :: "ProductRow list" where
  "bigIdTable = [exampleRow ''n'' None ''c'' 0 9007199254740993 10,
                 exampleRow ''n'' None ''c'' 0 9007199254740994 10]"

definition bigIdPage :: ProductPage where
  "bigIdPage =
     \<lparr> items = [exampleRow ''n'' None ''c'' 0 9007199254740992 10], hasMore = True,
       nextCursor = Some \<lparr> cur_v = NumV 10, cur_id = 9007199254740992 \<rparr> \<rparr>"

lemma bigId_pages:
  "listProducts ft bigIdTable (exampleQuery\<lparr> q_limit := 1, q_cursor := None \<rparr>) = bigIdPage"
  "listProducts ft bigIdTable
     (exampleQuery\<lparr> q_limit := 1, q_cursor := Some \<lparr> cur_v = NumV 10, cur_id = 9007199254740992 \<rparr> \<rparr>)
   = bigIdPage"
  by (simp_all add: listProducts_def sqlQuery_def whereClauses_def bigIdTable_def bigIdPage_def
      exampleQuery_def exampleRow_def slice0_def less_eq_prod_def less_eq_colval_def less_colval_def
      Let_def toDouble_2_53_1)

lemma bigId_walk:
  "c = None \<or> c = Some \<lparr> cur_v = NumV 10, cur_id = 9007199254740992 \<rparr> \<Longrightarrow>
   walkPages n ft bigIdTable (exampleQuery\<lparr> q_limit := 1 \<rparr>) c = None"
proof (induction n arbitrary: c)
  case 0
  show ?case by simp
next
  case (Suc n)
  have pg: "listProducts ft bigIdTable (exampleQuery\<lparr> q_limit := 1, q_cursor := c \<rparr>) = bigIdPage"
    using Suc.prems bigId_pages[of ft] by auto
  have "walkPages n ft bigIdTable (exampleQuery\<lparr> q_limit := 1 \<rparr>) (nextCursor bigIdPage) = None"
    by (rule Suc.IH) (simp add: bigIdPage_def)
  then show ?case using pg by (simp add: Let_def bigIdPage_def)
qed

text \<open>
  Claim C1, as stated, fails on a table whose identifiers exceed \<open>2^53\<close>. The first page of the
  walk over \<open>bigIdTable\<close> reports the row \<open>2^53 + 1\<close> under the identifier \<open>2^53\<close> and mints the
  cursor from it; the seek \<open>id > 2^53\<close> then returns the same row, so the page for that cursor is
  the first page again, with the same cursor: the walk has no last page, whatever the number of
  pages fetched (lemma \<open>bigId_walk\<close>; three and a thousand pages below).
\<close>

theorem walk_repeats_page_beyond_2_53:
  "distinct (map p_id bigIdTable) \<and>
   listProducts (\<lambda>s r. True) bigIdTable (exampleQuery\<lparr> q_limit := 1 \<rparr>) = bigIdPage \<and>
   listProducts (\<lambda>s r. True) bigIdTable (exampleQuery\<lparr> q_limit := 1, q_cursor := nextCursor bigIdPage \<rparr>)
     = bigIdPage \<and>
   hasMore bigIdPage \<and>
   walkPages 3 (\<lambda>s r. True) bigIdTable (exampleQuery\<lparr> q_limit := 1 \<rparr>) None = None \<and>
   walkPages 1000 (\<lambda>s r. True) bigIdTable (exampleQuery\<lparr> q_limit := 1 \<rparr>) None = None"
proof -
  have 1: "distinct (map p_id bigIdTable)" by (simp add: bigIdTable_def exampleRow_def)
  have 2: "listProducts (\<lambda>s r. True) bigIdTable (exampleQuery\<lparr> q_limit := 1 \<rparr>) = bigIdPage"
    using bigId_pages(1)[of "\<lambda>s r. True"] by (simp add: exampleQuery_def)
  have 3: "listProducts (\<lambda>s r. True) bigIdTable
             (exampleQuery\<lparr> q_limit := 1, q_cursor := nextCursor bigIdPage \<rparr>) = bigIdPage"
    using bigId_pages(2)[of "\<lambda>s r. True"] by (simp add: bigIdPage_def)
  have 4: "walkPages n (\<lambda>s r. True) bigIdTable (exampleQuery\<lparr> q_limit := 1 \<rparr>) None = None" for n
    by (rule bigId_walk) simp
  show ?thesis using 1 2 3 4 by (simp add: bigIdPage_def)
qed

text \<open>
  Claim C1, amended. On a static table with a primary key whose identifiers are at most \<open>2^53\<close>
  (the numbers that \<open>Number(r.id)\<close> reads without loss), for every \<open>sortBy\<close>, every \<open>sortOrder\<close>,
  every combination of filters and every limit from 1 to 100, the walk that starts without a
  cursor and feeds each \<open>nextCursor\<close> back in reaches a page with \<open>hasMore = false\<close> (one page more
  than the table has rows is always enough), and the rows it has collected are exactly the rows
  that match the filters, each once, in the requested \<open>(sortColumn, id)\<close> order.
\<close>

theorem walk_pages_complete:
  assumes "distinct (map p_id tbl)" and "1 \<le> q_limit query" and "q_limit query \<le> 100"
    and "\<forall>r \<in> set tbl. p_id r \<le> 9007199254740992"
    and "length tbl < n"
  shows "\<exists>rows. walkPages n ft tbl query None = Some rows \<and>
           mset rows = mset (filter (matchesFilters ft query) tbl) \<and>
           sorted_wrt (before (q_sortOrder query) (q_sortBy query)) rows \<and>
           distinct rows"
proof -
  let ?S = "sortedMatches ft tbl query"
  have len: "length ?S \<le> length tbl"
    by (cases "q_sortOrder query") (simp_all add: sortedMatches_def)
  have "walkPages n ft tbl query (cursorAt (q_sortBy query) ?S 0) = Some (drop 0 ?S)"
    using assms len by (intro walk_from) auto
  then have w: "walkPages n ft tbl query None = Some ?S" by (simp add: cursorAt_def)
  have m: "mset ?S = mset (filter (matchesFilters ft query) tbl)"
    by (cases "q_sortOrder query") (simp_all add: sortedMatches_def)
  have dm: "distinct (map p_id (filter (matchesFilters ft query) tbl))"
    using assms(1) by (simp add: distinct_map_filter)
  have s: "sorted_wrt (before (q_sortOrder query) (q_sortBy query)) ?S"
    unfolding sortedMatches_def by (rule sorted_orderBy[OF dm])
  have "distinct (filter (matchesFilters ft query) tbl)"
    using dm by (simp add: distinct_map)
  then have "distinct ?S"
    by (cases "q_sortOrder query") (simp_all add: sortedMatches_def)
  with w m s show ?thesis by blast
qed

theorem walk_pages_complete_witness:
  "distinct (map p_id (exampleTable (exampleRow ''n'' None ''c'' 0))) \<and>
   1 \<le> q_limit exampleQuery \<and> q_limit exampleQuery \<le> 100 \<and>
   list_all (\<lambda>r. p_id r \<le> 9007199254740992) (exampleTable (exampleRow ''n'' None ''c'' 0)) \<and>
   length (exampleTable (exampleRow ''n'' None ''c'' 0)) < 5 \<and>
   (\<exists>rows. walkPages 5 (\<lambda>s r. True) (exampleTable (exampleRow ''n'' None ''c'' 0)) exampleQuery None
             = Some rows \<and>
      mset rows = mset (filter (matchesFilters (\<lambda>s r. True) exampleQuery)
                         (exampleTable (exampleRow ''n'' None ''c'' 0))) \<and>
      sorted_wrt (before (q_sortOrder exampleQuery) (q_sortBy exampleQuery)) rows \<and>
      distinct rows)"
proof -
  have h: "distinct (map p_id (exampleTable (exampleRow ''n'' None ''c'' 0)))"
    "1 \<le> q_limit exampleQuery" "q_limit exampleQuery \<le> 100"
    "\<forall>r \<in> set (exampleTable (exampleRow ''n'' None ''c'' 0)). p_id r \<le> 9007199254740992"
    "length (exampleTable (exampleRow ''n'' None ''c'' 0)) < 5"
    by (simp_all add: exampleTable_def exampleRow_def exampleQuery_def)
  have l: "list_all (\<lambda>r. p_id r \<le> 9007199254740992) (exampleTable (exampleRow ''n'' None ''c'' 0))"
    by (simp add: exampleTable_def exampleRow_def)
  from walk_pages_complete[OF h, of "\<lambda>s r. True"] h(1,2,3,5) l show ?thesis by blast
qed


section \<open>Decimal text of integers\<close>

text \<open>
  The decimal text of a natural number, as JavaScript and Redis print it, and its reading back.
  \<open>canonicalNat\<close> accepts exactly the texts that \<open>showNat\<close> produces: digits only, no sign, no
  leading zero.
\<close>

definition digitChar :: "nat \<Rightarrow> char" where
  "digitChar d = ''0123456789'' ! d"

function showNat :: "nat \<Rightarrow> string" where
  "showNat n = (if n < 10 then [digitChar n] else showNat (n div 10) @ [digitChar (n mod 10)])"
  by pat_completeness auto
termination
  by (relation "measure id") auto

declare showNat.simps [simp del]

definition digitVal :: "char \<Rightarrow> nat option" where
  "digitVal c =
     map_of [(CHR ''0'', 0), (CHR ''1'', 1), (CHR ''2'', 2), (CHR ''3'', 3), (CHR ''4'', 4),
             (CHR ''5'', 5), (CHR ''6'', 6), (CHR ''7'', 7), (CHR ''8'', 8), (CHR ''9'', 9)] c"

fun parseDigits :: "nat \<Rightarrow> string \<Rightarrow> nat option" where
  "parseDigits acc [] = Some acc"
| "parseDigits acc (c # cs) =
     (case digitVal c of None \<Rightarrow> None | Some d \<Rightarrow> parseDigits (10 * acc + d) cs)"

definition canonicalNat :: "string \<Rightarrow> nat option" where
  "canonicalNat s =
     (if s = [] then None
      else case parseDigits 0 s of
             None \<Rightarrow> None
           | Some n \<Rightarrow> if showNat n = s then Some n else None)"



lemma digitVal_digit: "d < 10 \<Longrightarrow> digitVal (digitChar d) = Some d"
proof -
  assume "d < 10"
  then have "d \<in> {0, 1, 2, 3, 4, 5, 6, 7, 8, 9}" by auto
  then show ?thesis
    by (auto simp: digitVal_def digitChar_def)
qed

lemma parseDigits_append:
  "parseDigits acc (xs @ ys) = (case parseDigits acc xs of None \<Rightarrow> None | Some a \<Rightarrow> parseDigits a ys)"
  by (induction xs arbitrary: acc) (auto split: option.splits)

lemma parseDigits_showNat: "parseDigits 0 (showNat n) = Some n"
proof (induction n rule: showNat.induct)
  case (1 n)
  show ?case
  proof (cases "n < 10")
    case True
    then show ?thesis by (subst showNat.simps) (simp add: digitVal_digit)
  next
    case False
    then have "parseDigits 0 (showNat (n div 10)) = Some (n div 10)" using 1 by simp
    then show ?thesis using False
      by (subst showNat.simps) (simp add: parseDigits_append digitVal_digit)
  qed
qed

lemma showNat_nonempty: "showNat n \<noteq> []"
  by (subst showNat.simps) simp

lemma canonicalNat_showNat: "canonicalNat (showNat n) = Some n"
  by (simp add: canonicalNat_def parseDigits_showNat showNat_nonempty)

lemma canonicalNat_Some: "canonicalNat s = Some n \<Longrightarrow> s = showNat n"
  by (auto simp: canonicalNat_def split: if_splits option.splits)

section \<open>Stable serialisation of parameters: \<open>utils/stableStringify.ts\<close>\<close>

text \<open>
  A JavaScript value that \<open>JSON.stringify\<close> can print, or a \<open>Date\<close> with a valid time. A number
  is a rational (a finite double, rounding apart) or one of the three special values. An object
  is the list of its own properties in the order of their creation; its keys are distinct.
  \<open>undefined\<close>, functions, symbols and bigints are outside the model.

  The library functions that the code calls and that are not defined here are the fields of
  \<open>Builtins\<close>: \<open>Date.prototype.toISOString\<close>, the text of a finite number and the SHA-1 digest
  in hexadecimal.

  \<open>ownKeys\<close> is the order in which \<open>Object.keys\<close> and \<open>JSON.stringify\<close> visit the properties of an
  object: array indices (canonical numerals below \<open>2^32 - 1\<close>) in ascending numeric order first,
  the other keys in creation order after them. \<open>setProp\<close> is the assignment \<open>out[key] = v\<close>, which
  keeps the place of a key that exists and puts a new key last; for the key \<open>__proto__\<close> it
  calls the setter of \<open>Object.prototype\<close> and creates no property. \<open>sort\<close> on strings compares them
  character by character, as \<open>Array.prototype.sort\<close> without a comparator does.
\<close>

datatype number = NaN | Fin rat | PosInf | NegInf

datatype json =
    JNull
  | JBool bool
  | JNum number
  | JStr string
  | JDate int
  | JArr "json list"
  | JObj "(string \<times> json) list"

record Builtins =
  toISOString :: "int \<Rightarrow> string"
  numberToString :: "rat \<Rightarrow> string"
  sha1hex :: "string \<Rightarrow> string"

definition arrayIndex :: "string \<Rightarrow> nat option" where
  "arrayIndex s =
     (case canonicalNat s of
        None \<Rightarrow> None
      | Some n \<Rightarrow> if n < 4294967295 then Some n else None)"

definition ownKeys :: "(string \<times> 'a) list \<Rightarrow> string list" where
  "ownKeys ps =
     sort_key (\<lambda>k. case arrayIndex k of Some n \<Rightarrow> (0::nat, n) | None \<Rightarrow> (1, 0)) (map fst ps)"

definition getProp :: "(string \<times> json) list \<Rightarrow> string \<Rightarrow> json" where
  "getProp ps k = (case map_of ps k of Some v \<Rightarrow> v | None \<Rightarrow> JNull)"

definition setProp :: "(string \<times> json) list \<Rightarrow> string \<Rightarrow> json \<Rightarrow> (string \<times> json) list" where
  "setProp out k v = (if k = ''__proto__'' then out else AList.update k v out)"

lemma size_getProp: "k \<in> fst ` set ps \<Longrightarrow> size (getProp ps k) < Suc (size_list (size_prod (\<lambda>_. 0) size) ps)"
proof (induction ps)
  case Nil
  then show ?case by simp
next
  case (Cons p ps)
  show ?case
  proof (cases "fst p = k")
    case True
    then show ?thesis by (cases p) (simp add: getProp_def)
  next
    case False
    then have "k \<in> fst ` set ps" using Cons.prems by auto
    then have "size (getProp ps k) < Suc (size_list (size_prod (\<lambda>_. 0) size) ps)" by (rule Cons.IH)
    moreover have "getProp (p # ps) k = getProp ps k" using False by (cases p) (auto simp: getProp_def)
    ultimately show ?thesis by simp
  qed
qed

lemma set_ownKeys [simp]: "set (ownKeys ps) = fst ` set ps"
  by (simp add: ownKeys_def)

function sortRec :: "'a Builtins_scheme \<Rightarrow> json \<Rightarrow> json" where
  "sortRec lib JNull = JNull"
| "sortRec lib (JBool b) = JBool b"
| "sortRec lib (JNum n) = JNum n"
| "sortRec lib (JStr s) = JStr s"
| "sortRec lib (JDate t) = JStr (toISOString lib t)"
| "sortRec lib (JArr xs) = JArr (map (sortRec lib) xs)"
| "sortRec lib (JObj ps) =
     JObj (foldl (\<lambda>out key. setProp out key (sortRec lib (getProp ps key))) [] (sort (ownKeys ps)))"
  by pat_completeness auto
termination
  apply (relation "measure (\<lambda>(lib, v). size v)")
    apply simp
   apply (simp add: less_Suc_eq_le size_list_estimation')
  apply (simp add: size_getProp)
  done


definition hexDigit :: "nat \<Rightarrow> char" where
  "hexDigit d = ''0123456789abcdef'' ! d"

definition escapeChar :: "char \<Rightarrow> string" where
  "escapeChar c =
     (if c = CHR 0x22 then [CHR 0x5C, CHR 0x22]
      else if c = CHR 0x5C then [CHR 0x5C, CHR 0x5C]
      else if c = CHR 0x08 then [CHR 0x5C, CHR ''b'']
      else if c = CHR 0x0C then [CHR 0x5C, CHR ''f'']
      else if c = CHR 0x0A then [CHR 0x5C, CHR ''n'']
      else if c = CHR 0x0D then [CHR 0x5C, CHR ''r'']
      else if c = CHR 0x09 then [CHR 0x5C, CHR ''t'']
      else if (of_char c :: nat) < 32
        then [CHR 0x5C, CHR ''u'', CHR ''0'', CHR ''0'', hexDigit (of_char c div 16), hexDigit (of_char c mod 16)]
      else [c])"

definition quote :: "string \<Rightarrow> string" where
  "quote s = [CHR 0x22] @ concat (map escapeChar s) @ [CHR 0x22]"

fun join :: "string \<Rightarrow> string list \<Rightarrow> string" where
  "join sep [] = []"
| "join sep [x] = x"
| "join sep (x # y # ys) = x @ sep @ join sep (y # ys)"

function JSON_stringify :: "'a Builtins_scheme \<Rightarrow> json \<Rightarrow> string" where
  "JSON_stringify lib JNull = ''null''"
| "JSON_stringify lib (JBool b) = (if b then ''true'' else ''false'')"
| "JSON_stringify lib (JNum n) = (case n of Fin r \<Rightarrow> numberToString lib r | _ \<Rightarrow> ''null'')"
| "JSON_stringify lib (JStr s) = quote s"
| "JSON_stringify lib (JDate t) = quote (toISOString lib t)"
| "JSON_stringify lib (JArr xs) = ''['' @ join '','' (map (JSON_stringify lib) xs) @ '']''"
| "JSON_stringify lib (JObj ps) =
     ''{'' @ join '','' (map (\<lambda>key. quote key @ '':'' @ JSON_stringify lib (getProp ps key)) (ownKeys ps)) @ ''}''"
  by pat_completeness auto
termination
  apply (relation "measure (\<lambda>(lib, v). size v)")
    apply simp
   apply (simp add: less_Suc_eq_le size_list_estimation')
  apply (simp add: size_getProp)
  done

definition stableStringify :: "'a Builtins_scheme \<Rightarrow> json \<Rightarrow> string" where
  "stableStringify lib v = JSON_stringify lib (sortRec lib v)"

definition hashKey :: "'a Builtins_scheme \<Rightarrow> json \<Rightarrow> string" where
  "hashKey lib obj = sha1hex lib (stableStringify lib obj)"

inductive sameValue :: "json \<Rightarrow> json \<Rightarrow> bool" where
  same: "sameValue v v"
| arrays: "list_all2 sameValue xs ys \<Longrightarrow> sameValue (JArr xs) (JArr ys)"
| objects:
    "distinct (map fst ps) \<Longrightarrow> distinct (map fst qs) \<Longrightarrow> fst ` set ps = fst ` set qs \<Longrightarrow>
     (\<forall>k \<in> fst ` set ps. sameValue (getProp ps k) (getProp qs k)) \<Longrightarrow>
     sameValue (JObj ps) (JObj qs)"

text \<open>
  Two values are the same up to the order in which the keys of their objects were created, at
  every depth: arrays keep their order, objects have the same keys with the same values.
\<close>

text \<open>Stand-ins for the library functions, to evaluate examples on integers.\<close>

definition exampleBuiltins :: Builtins where
  "exampleBuiltins =
     \<lparr> toISOString = (\<lambda>t. showNat (nat t)),
       numberToString = (\<lambda>r. showNat (nat \<lfloor>r\<rfloor>)),
       sha1hex = (\<lambda>s. s) \<rparr>"

subsection \<open>Invariance under the order of keys\<close>

lemma mset_ownKeys: "mset (ownKeys ps) = mset (map fst ps)"
  by (simp add: ownKeys_def)

lemma sort_ownKeys_cong:
  assumes "distinct (map fst ps)" "distinct (map fst qs)" "fst ` set ps = fst ` set qs"
  shows "sort (ownKeys ps) = sort (ownKeys qs)"
proof -
  have "mset (map fst ps) = mset (map fst qs)"
    using assms set_eq_iff_mset_eq_distinct[of "map fst ps" "map fst qs"] by simp
  then have "mset (ownKeys ps) = mset (ownKeys qs)" by (simp add: mset_ownKeys)
  then show ?thesis by (metis mset_sort properties_for_sort sorted_sort)
qed

lemma sortRec_sameValue: "sameValue x y \<Longrightarrow> sortRec lib x = sortRec lib y"
proof (induction rule: sameValue.induct)
  case (same v)
  show ?case by simp
next
  case (arrays xs ys)
  then have "list_all2 (\<lambda>x y. sortRec lib x = sortRec lib y) xs ys"
    by (simp add: list_all2_mono)
  then have "map (sortRec lib) xs = map (sortRec lib) ys"
    by (induction rule: list_all2_induct) simp_all
  then show ?case by simp
next
  case (objects ps qs)
  have keys: "sort (ownKeys ps) = sort (ownKeys qs)"
    using objects(1-3) by (rule sort_ownKeys_cong)
  have vals: "sortRec lib (getProp ps k) = sortRec lib (getProp qs k)" if "k \<in> set (sort (ownKeys qs))" for k
    using that objects(3,4) by auto
  have "foldl (\<lambda>out key. setProp out key (sortRec lib (getProp ps key))) [] (sort (ownKeys qs))
      = foldl (\<lambda>out key. setProp out key (sortRec lib (getProp qs key))) [] (sort (ownKeys qs))"
    by (rule foldl_cong) (simp_all add: vals)
  then show ?case by (simp add: keys)
qed

text \<open>
  Claim C8. \<open>stableStringify\<close>, and with it the hash in a cache key, does not depend on the order
  in which the keys of an object were inserted, at any depth: two values that agree up to that
  order (arrays in the same order, dates printed as ISO-8601 text) have the same output. The
  instance below it is \<open>hash({a:1,b:2}) = hash({b:2,a:1})\<close>.
\<close>

theorem stableStringify_key_order:
  assumes "sameValue x y"
  shows "stableStringify lib x = stableStringify lib y \<and> hashKey lib x = hashKey lib y"
  using sortRec_sameValue[OF assms, of lib] by (simp add: stableStringify_def hashKey_def)

theorem stableStringify_key_order_witness:
  "sameValue (JObj [(''a'', JNum (Fin 1)), (''b'', JNum (Fin 2))])
             (JObj [(''b'', JNum (Fin 2)), (''a'', JNum (Fin 1))]) \<and>
   stableStringify exampleBuiltins (JObj [(''a'', JNum (Fin 1)), (''b'', JNum (Fin 2))]) =
     stableStringify exampleBuiltins (JObj [(''b'', JNum (Fin 2)), (''a'', JNum (Fin 1))]) \<and>
   hashKey exampleBuiltins (JObj [(''a'', JNum (Fin 1)), (''b'', JNum (Fin 2))]) =
     hashKey exampleBuiltins (JObj [(''b'', JNum (Fin 2)), (''a'', JNum (Fin 1))])"
proof -
  have s: "sameValue (JObj [(''a'', JNum (Fin 1)), (''b'', JNum (Fin 2))])
                     (JObj [(''b'', JNum (Fin 2)), (''a'', JNum (Fin 1))])"
    by (rule sameValue.objects) (auto simp: getProp_def intro: sameValue.same)
  from stableStringify_key_order[OF s, of exampleBuiltins] s show ?thesis by simp
qed


section \<open>The key-value store and the cache with a lock: \<open>services/cache.ts\<close>\<close>

text \<open>
  The world outside the process, as far as the cache sees it: the state of the Redis connection
  (\<open>services/redis.ts\<close>), the keys of the store with their values and expiry instants, the clock
  (\<open>Date.now()\<close>, in milliseconds), and a record of the commands sent and the sleeps taken, which
  the code does not have and which only the theorems read; a sleep is recorded with the delay
  asked for and the instant at which it began. A key whose expiry instant has passed is absent
  (\<open>live\<close>). The store's commands are the ones the code sends: \<open>GET\<close>, \<open>SET\<close> with an optional
  \<open>PX\<close>/\<open>EX\<close> lifetime and an optional \<open>NX\<close>, \<open>INCR\<close> and the compare-and-delete script. Each is
  what the store does at the instant the command reaches it, on a connection that is up.

  \<open>INCR\<close> reads a value as a signed 64-bit integer in canonical decimal text (\<open>string2ll\<close>), and
  fails on any other text and on overflow.
\<close>

datatype DependencyStatus = Disabled | Down | Connecting | Up

record Env =
  MYSQL_ENABLED :: bool
  REDIS_ENABLED :: bool
  CACHE_ENABLED :: bool
  CACHE_LOCK_TTL_MS :: int
  PRODUCTS_LIST_CACHE_TTL_SECONDS :: int

datatype IoEvent =
    RedisGET string "string option"
  | RedisSET string string "int option" bool
  | RedisINCR string
  | RedisEVAL string string
  | SqlQuery
  | Sleep int int

record World =
  redisStatus :: DependencyStatus
  kv :: "string \<Rightarrow> (string \<times> int option) option"
  clock :: int
  trace :: "IoEvent list"

definition live :: "'a World_scheme \<Rightarrow> string \<Rightarrow> string option" where
  "live w k =
     (case kv w k of
        None \<Rightarrow> None
      | Some (v, e) \<Rightarrow> (case e of None \<Rightarrow> Some v | Some t \<Rightarrow> if clock w < t then Some v else None))"

definition redisGET :: "string \<Rightarrow> 'a World_scheme \<Rightarrow> string option \<times> 'a World_scheme" where
  "redisGET k w = (live w k, w\<lparr> trace := trace w @ [RedisGET k (live w k)] \<rparr>)"

definition redisSET ::
  "string \<Rightarrow> string \<Rightarrow> int option \<Rightarrow> bool \<Rightarrow> 'a World_scheme \<Rightarrow> bool \<times> 'a World_scheme" where
  "redisSET k v px nx w =
     (if nx \<and> live w k \<noteq> None
      then (False, w\<lparr> trace := trace w @ [RedisSET k v px nx] \<rparr>)
      else (True, w\<lparr> kv := (kv w)(k \<mapsto> (v, map_option (\<lambda>d. clock w + d) px)),
                      trace := trace w @ [RedisSET k v px nx] \<rparr>))"

definition redisEVAL :: "string \<Rightarrow> string \<Rightarrow> 'a World_scheme \<Rightarrow> 'a World_scheme" where
  "redisEVAL k arg w =
     (if live w k = Some arg
      then w\<lparr> kv := (kv w)(k := None), trace := trace w @ [RedisEVAL k arg] \<rparr>
      else w\<lparr> trace := trace w @ [RedisEVAL k arg] \<rparr>)"

definition ll2string :: "int \<Rightarrow> string" where
  "ll2string i = (if i < 0 then CHR ''-'' # showNat (nat (- i)) else showNat (nat i))"

definition string2ll :: "string \<Rightarrow> int option" where
  "string2ll s =
     (case s of
        [] \<Rightarrow> None
      | c # cs \<Rightarrow>
          if c = CHR ''-''
          then (case canonicalNat cs of
                  None \<Rightarrow> None
                | Some n \<Rightarrow> if 0 < n \<and> n \<le> 9223372036854775808 then Some (- int n) else None)
          else (case canonicalNat s of
                  None \<Rightarrow> None
                | Some n \<Rightarrow> if n \<le> 9223372036854775807 then Some (int n) else None))"

datatype Error =
    AppError string nat
  | ZodError
  | TypeError
  | SyntaxError
  | ReplyError string
  | Thrown string

definition redisINCR :: "string \<Rightarrow> 'a World_scheme \<Rightarrow> (Error + int) \<times> 'a World_scheme" where
  "redisINCR k w =
     (let w' = w\<lparr> trace := trace w @ [RedisINCR k] \<rparr> in
      case kv w k of
        None \<Rightarrow> (Inr 1, w'\<lparr> kv := (kv w)(k \<mapsto> (ll2string 1, None)) \<rparr>)
      | Some (s, e) \<Rightarrow>
          if live w k = None then (Inr 1, w'\<lparr> kv := (kv w)(k \<mapsto> (ll2string 1, None)) \<rparr>)
          else (case string2ll s of
                  None \<Rightarrow> (Inl (ReplyError ''ERR value is not an integer or out of range''), w')
                | Some n \<Rightarrow>
                    if n = 9223372036854775807
                    then (Inl (ReplyError ''ERR increment or decrement would overflow''), w')
                    else (Inr (n + 1), w'\<lparr> kv := (kv w)(k \<mapsto> (ll2string (n + 1), e)) \<rparr>)))"


text \<open>
  \<open>redisReady\<close> is the test \<open>env.CACHE_ENABLED && h.enabled && h.status === 'up'\<close>. A cached
  value is stored as its JSON text, \<open>JSON.stringify(value)\<close>, and read back with \<open>JSON.parse\<close>,
  a further library function (\<open>None\<close> when it throws a \<open>SyntaxError\<close>). \<open>uuid\<close> is the value
  \<open>randomUUID()\<close> returns to \<open>acquireLock\<close>.

  Whenever the process waits, time passes and the other clients of the store act. \<open>await others
  ms w\<close> is the world after a wait that was asked to last \<open>ms\<close> milliseconds: \<open>others\<close> has acted on
  it (it may change keys and the state of the connection, and move the clock forward), and at
  least \<open>ms\<close> milliseconds have passed; the record of what the process itself did is not theirs
  to change. The functions of \<open>cache.ts\<close> wait in this way for each command to reach the store
  (after the test \<open>redisReady()\<close>, which waits for nothing) and for each \<open>sleep\<close>, and the way back
  of a reply is the wait before \<open>Date.now()\<close> is read. \<open>compute\<close> is any computation on the world
  that returns a value or throws.

  The polling loop of \<open>withCache\<close> is \<open>pollCache\<close>: \<open>None\<close> would say that it never returns.
\<close>

record JsonLib = Builtins +
  JSON_parse :: "string \<Rightarrow> json option"

datatype CacheStatus = BYPASS | HIT | MISS | WAIT

definition await :: "('a World_scheme \<Rightarrow> 'a World_scheme) \<Rightarrow> int \<Rightarrow> 'a World_scheme \<Rightarrow> 'a World_scheme" where
  "await others ms w =
     (others w)\<lparr> clock := max (clock (others w)) (clock w + ms), trace := trace w \<rparr>"

definition redisReady :: "'e Env_scheme \<Rightarrow> 'a World_scheme \<Rightarrow> bool" where
  "redisReady env w = (CACHE_ENABLED env \<and> REDIS_ENABLED env \<and> redisStatus w = Up)"

definition cacheGetJson ::
  "'l JsonLib_scheme \<Rightarrow> 'e Env_scheme \<Rightarrow> ('a World_scheme \<Rightarrow> 'a World_scheme) \<Rightarrow> string \<Rightarrow>
   'a World_scheme \<Rightarrow> (Error + json option) \<times> 'a World_scheme" where
  "cacheGetJson lib env others key w =
     (if \<not> redisReady env w then (Inr None, w)
      else case redisGET key (await others 0 w) of
             (raw, w') \<Rightarrow>
               if \<not> truthy raw then (Inr None, w')
               else (case JSON_parse lib (the raw) of
                       None \<Rightarrow> (Inl SyntaxError, w')
                     | Some v \<Rightarrow> (Inr (Some v), w')))"

definition cacheSetJson ::
  "'l JsonLib_scheme \<Rightarrow> 'e Env_scheme \<Rightarrow> ('a World_scheme \<Rightarrow> 'a World_scheme) \<Rightarrow> string \<Rightarrow> json \<Rightarrow>
   int \<Rightarrow> 'a World_scheme \<Rightarrow> 'a World_scheme" where
  "cacheSetJson lib env others key val ttlSeconds w =
     (if \<not> redisReady env w then w
      else snd (redisSET key (JSON_stringify lib val) (Some (ttlSeconds * 1000)) False (await others 0 w)))"

definition acquireLock ::
  "'e Env_scheme \<Rightarrow> ('a World_scheme \<Rightarrow> 'a World_scheme) \<Rightarrow> string \<Rightarrow> string \<Rightarrow> int \<Rightarrow>
   'a World_scheme \<Rightarrow> string option \<times> 'a World_scheme" where
  "acquireLock env others uuid lockKey ttlMs w =
     (if \<not> redisReady env w then (None, w)
      else case redisSET lockKey uuid (Some ttlMs) True (await others 0 w) of
             (ok, w') \<Rightarrow> (if ok then Some uuid else None, w'))"

definition releaseLock ::
  "'e Env_scheme \<Rightarrow> ('a World_scheme \<Rightarrow> 'a World_scheme) \<Rightarrow> string \<Rightarrow> string \<Rightarrow>
   'a World_scheme \<Rightarrow> 'a World_scheme" where
  "releaseLock env others lockKey lockValue w =
     (if \<not> redisReady env w then w else redisEVAL lockKey lockValue (await others 0 w))"

definition sleep :: "('a World_scheme \<Rightarrow> 'a World_scheme) \<Rightarrow> int \<Rightarrow> 'a World_scheme \<Rightarrow> 'a World_scheme" where
  "sleep others ms w = (await others ms w)\<lparr> trace := trace w @ [Sleep ms (clock w)] \<rparr>"

partial_function (option) pollCache ::
  "'l JsonLib_scheme \<Rightarrow> 'e Env_scheme \<Rightarrow> ('a World_scheme \<Rightarrow> 'a World_scheme) \<Rightarrow> string \<Rightarrow> int \<Rightarrow>
   int \<Rightarrow> int \<Rightarrow> 'a World_scheme \<Rightarrow> ((Error + json option) \<times> 'a World_scheme) option" where
  "pollCache lib env others key maxWaitMs start delay w =
     (let w0 = await others 0 w
      in if clock w0 - start < maxWaitMs
         then (case cacheGetJson lib env others key (sleep others delay w0) of
                 (Inl e, w') \<Rightarrow> Some (Inl e, w')
               | (Inr (Some v), w') \<Rightarrow> Some (Inr (Some v), w')
               | (Inr None, w') \<Rightarrow>
                   pollCache lib env others key maxWaitMs start (min 250 (delay * 2)) w')
         else Some (Inr None, w0))"

definition bypass :: "(Error + json) \<times> 'w \<Rightarrow> (Error + json \<times> CacheStatus) \<times> 'w" where
  "bypass r = (case r of (Inl e, w) \<Rightarrow> (Inl e, w) | (Inr v, w) \<Rightarrow> (Inr (v, BYPASS), w))"

definition withCache ::
  "'l JsonLib_scheme \<Rightarrow> 'e Env_scheme \<Rightarrow> string \<Rightarrow> ('a World_scheme \<Rightarrow> 'a World_scheme) \<Rightarrow> string \<Rightarrow>
   int \<Rightarrow> ('a World_scheme \<Rightarrow> (Error + json) \<times> 'a World_scheme) \<Rightarrow> 'a World_scheme \<Rightarrow>
   ((Error + json \<times> CacheStatus) \<times> 'a World_scheme) option" where
  "withCache lib env uuid others key ttlSeconds compute w =
     (if \<not> redisReady env w then Some (bypass (compute w))
      else case cacheGetJson lib env others key w of
        (Inl e, w1) \<Rightarrow> Some (Inl e, w1)
      | (Inr (Some v), w1) \<Rightarrow> Some (Inr (v, HIT), w1)
      | (Inr None, w1) \<Rightarrow>
          (case acquireLock env others uuid (key @ '':lock'') (CACHE_LOCK_TTL_MS env) w1 of
             (lockValue, w2) \<Rightarrow>
               if truthy lockValue
               then (case compute w2 of
                       (Inl e, w3) \<Rightarrow>
                         Some (Inl e, releaseLock env others (key @ '':lock'') (the lockValue) w3)
                     | (Inr v, w3) \<Rightarrow>
                         Some (Inr (v, MISS),
                               releaseLock env others (key @ '':lock'') (the lockValue)
                                 (cacheSetJson lib env others key v ttlSeconds w3)))
               else (let w0 = await others 0 w2
                     in case pollCache lib env others key (min 1000 (CACHE_LOCK_TTL_MS env))
                               (clock w0) 50 w0 of
                          None \<Rightarrow> None
                        | Some (Inl e, w3) \<Rightarrow> Some (Inl e, w3)
                        | Some (Inr (Some v), w3) \<Rightarrow> Some (Inr (v, WAIT), w3)
                        | Some (Inr None, w3) \<Rightarrow> Some (bypass (compute w3)))))"


text \<open>
  The sleeps recorded in a trace, each with the instant at which it began, whether every read
  recorded in it missed, and the first \<open>n\<close> delays of the backoff that starts at \<open>d\<close>.
\<close>

fun sleepsOf :: "IoEvent list \<Rightarrow> (int \<times> int) list" where
  "sleepsOf [] = []"
| "sleepsOf (Sleep ms t # es) = (ms, t) # sleepsOf es"
| "sleepsOf (e # es) = sleepsOf es"

fun readsMiss :: "IoEvent list \<Rightarrow> bool" where
  "readsMiss [] = True"
| "readsMiss (RedisGET k r # es) = (\<not> truthy r \<and> readsMiss es)"
| "readsMiss (e # es) = readsMiss es"




definition exampleEnv :: Env where
  "exampleEnv = \<lparr> MYSQL_ENABLED = True, REDIS_ENABLED = True, CACHE_ENABLED = True,
                  CACHE_LOCK_TTL_MS = 2000, PRODUCTS_LIST_CACHE_TTL_SECONDS = 30 \<rparr>"

definition emptyWorld :: World where
  "emptyWorld = \<lparr> redisStatus = Up, kv = Map.empty, clock = 0, trace = [] \<rparr>"



text \<open>
  Two callers of \<open>withCache\<close> on the key \<open>k\<close>, with the same \<open>compute\<close>, a query that returns
  \<open>page\<close>. The leader runs alone on the empty store. The follower starts when the leader holds
  the lock and is computing (\<open>leaderComputing\<close> is the store as the leader's \<open>SET ... NX\<close> left
  it). The leader's last two commands, the \<open>SET\<close> of its value and the release of its lock, reach
  the store while the follower's \<open>SET ... NX\<close> is on its way, just after the follower's first
  read: \<open>leaderEnds\<close> puts the store in the state in which the leader's run leaves it.
\<close>

definition pageQuery :: "World \<Rightarrow> (Error + json) \<times> World" where
  "pageQuery w = (Inr (JStr ''page''), w\<lparr> trace := trace w @ [SqlQuery] \<rparr>)"

definition leaderComputing :: World where
  "leaderComputing = emptyWorld\<lparr> kv := [''k:lock'' \<mapsto> (''leader'', Some 2000)] \<rparr>"

definition leaderEnds :: "World \<Rightarrow> World" where
  "leaderEnds w =
     (if trace w = [RedisGET ''k'' None]
      then w\<lparr> kv := [''k'' \<mapsto> (CHR 0x22 # ''page'' @ [CHR 0x22], Some 30000)] \<rparr>
      else w)"

definition exampleJsonLib :: JsonLib where
  "exampleJsonLib =
     \<lparr> toISOString = (\<lambda>t. showNat (nat t)),
       numberToString = (\<lambda>r. showNat (nat \<lfloor>r\<rfloor>)),
       sha1hex = (\<lambda>s. s),
       JSON_parse = (\<lambda>s. if s = ''null'' then Some JNull else None) \<rparr>"

subsection \<open>Integers in the store\<close>

lemma showNat_not_minus: "showNat n \<noteq> CHR ''-'' # cs"
proof -
  have "canonicalNat (showNat n) = Some n" by (rule canonicalNat_showNat)
  moreover have "canonicalNat (CHR ''-'' # cs) = None"
    by (simp add: canonicalNat_def digitVal_def)
  ultimately show ?thesis by auto
qed

lemma string2ll_ll2string:
  "- 9223372036854775808 \<le> i \<Longrightarrow> i \<le> 9223372036854775807 \<Longrightarrow> string2ll (ll2string i) = Some i"
proof (cases "i < 0")
  case True
  assume "- 9223372036854775808 \<le> i"
  with True show ?thesis
    by (simp add: string2ll_def ll2string_def canonicalNat_showNat)
next
  case False
  assume "i \<le> 9223372036854775807"
  obtain c cs where sh: "showNat (nat i) = c # cs"
    using showNat_nonempty[of "nat i"] by (cases "showNat (nat i)") auto
  then have c: "c \<noteq> CHR ''-''" using showNat_not_minus[of "nat i"] by auto
  have "canonicalNat (c # cs) = Some (nat i)"
    using canonicalNat_showNat[of "nat i"] sh by simp
  then have "string2ll (c # cs) = Some i"
    using c False \<open>i \<le> 9223372036854775807\<close> by (simp add: string2ll_def)
  then show ?thesis using False sh by (simp add: ll2string_def)
qed


subsection \<open>The polling loop returns\<close>

lemma sleepsOf_append [simp]: "sleepsOf (xs @ ys) = sleepsOf xs @ sleepsOf ys"
  by (induction xs rule: sleepsOf.induct) simp_all

lemma readsMiss_append [simp]: "readsMiss (xs @ ys) = (readsMiss xs \<and> readsMiss ys)"
  by (induction xs rule: readsMiss.induct) simp_all

lemma live_trace [simp]: "live (w\<lparr> trace := t \<rparr>) k = live w k"
  by (simp add: live_def split: option.splits prod.splits)

lemma await_trace [simp]: "trace (await others ms w) = trace w"
  by (simp add: await_def)


















text \<open>
  Claim C3 says that concurrent callers of \<open>withCache\<close> on one key issue \<open>compute\<close> once. The
  code issues it twice in this run of two callers. The leader misses, acquires the lock, runs
  the query, stores the page and releases the lock. The follower's first read comes while the
  leader computes, and misses; the leader's value and release reach the store before the
  follower's \<open>SET ... NX\<close> does. The follower then acquires the lock and, without reading the
  key again, runs the query a second time, writes the entry over the leader's and returns status
  \<open>MISS\<close>, although the key held the leader's value when the lock was acquired.
\<close>

theorem follower_computes_again:
  "map_option (\<lambda>r. (fst r, kv (snd r), trace (snd r)))
     (withCache exampleJsonLib exampleEnv ''leader'' (\<lambda>w. w) ''k'' 30 pageQuery emptyWorld) =
     Some (Inr (JStr ''page'', MISS),
           [''k'' \<mapsto> (CHR 0x22 # ''page'' @ [CHR 0x22], Some 30000)],
           [RedisGET ''k'' None, RedisSET ''k:lock'' ''leader'' (Some 2000) True, SqlQuery,
            RedisSET ''k'' (CHR 0x22 # ''page'' @ [CHR 0x22]) (Some 30000) False,
            RedisEVAL ''k:lock'' ''leader'']) \<and>
   acquireLock exampleEnv (\<lambda>w. w) ''leader'' ''k:lock'' 2000 (emptyWorld\<lparr> trace := [RedisGET ''k'' None] \<rparr>) =
     (Some ''leader'',
      leaderComputing\<lparr> trace := [RedisGET ''k'' None, RedisSET ''k:lock'' ''leader'' (Some 2000) True] \<rparr>) \<and>
   cacheGetJson exampleJsonLib exampleEnv leaderEnds ''k'' leaderComputing =
     (Inr None, leaderComputing\<lparr> trace := [RedisGET ''k'' None] \<rparr>) \<and>
   live (await leaderEnds 0 (leaderComputing\<lparr> trace := [RedisGET ''k'' None] \<rparr>)) ''k''
     = Some (CHR 0x22 # ''page'' @ [CHR 0x22]) \<and>
   map_option (\<lambda>r. (fst r, trace (snd r)))
     (withCache exampleJsonLib exampleEnv ''follower'' leaderEnds ''k'' 30 pageQuery leaderComputing) =
     Some (Inr (JStr ''page'', MISS),
           [RedisGET ''k'' None, RedisSET ''k:lock'' ''follower'' (Some 2000) True, SqlQuery,
            RedisSET ''k'' (CHR 0x22 # ''page'' @ [CHR 0x22]) (Some 30000) False,
            RedisEVAL ''k:lock'' ''follower''])"
  by (simp add: withCache_def exampleEnv_def leaderComputing_def emptyWorld_def redisReady_def
      cacheGetJson_def cacheSetJson_def redisGET_def live_def acquireLock_def redisSET_def
      releaseLock_def redisEVAL_def await_def leaderEnds_def pageQuery_def quote_def escapeChar_def
      fun_eq_iff)

section \<open>Versioned cache keys: \<open>services/productsCache.ts\<close>\<close>

text \<open>
  \<open>getVersion\<close> sets the counter to \<open>1\<close> if it is absent (\<open>SET ... NX\<close>) and reads it;
  \<open>bumpProductsCacheVersion\<close> sends one \<open>INCR\<close>. \<open>versionOf\<close> is the number the counter holds
  (0 when the key is absent, as \<open>INCR\<close> reads it), and \<open>versionOk\<close> says that the counter is absent
  or a positive integer that never expires, which is how these two functions leave it.

  A history of the process is a list of operations, each a request for the list key of some
  parameters or a bump; \<open>runOps\<close> runs it and collects the keys produced, each with its
  parameters. \<open>listKey lib n input\<close> is the key of \<open>input\<close> under version \<open>n\<close>.
\<close>

definition VERSION_KEY :: string where
  "VERSION_KEY = ''products:cache_version''"

definition canUseCache :: "'e Env_scheme \<Rightarrow> 'a World_scheme \<Rightarrow> bool" where
  "canUseCache env w = (CACHE_ENABLED env \<and> REDIS_ENABLED env \<and> redisStatus w = Up)"

definition getVersion :: "'e Env_scheme \<Rightarrow> 'a World_scheme \<Rightarrow> string option \<times> 'a World_scheme" where
  "getVersion env w =
     (if \<not> canUseCache env w then (None, w)
      else case redisSET VERSION_KEY ''1'' None True w of
        (ok, w1) \<Rightarrow> (case redisGET VERSION_KEY w1 of
                       (None, w2) \<Rightarrow> (Some ''1'', w2)
                     | (Some v, w2) \<Rightarrow> (Some v, w2)))"

definition getProductsListCacheKey ::
  "'b Builtins_scheme \<Rightarrow> 'e Env_scheme \<Rightarrow> json \<Rightarrow> 'a World_scheme \<Rightarrow> string option \<times> 'a World_scheme" where
  "getProductsListCacheKey lib env input w =
     (case getVersion env w of
        (v, w') \<Rightarrow> if \<not> truthy v then (None, w')
                   else (Some (''products:list:v'' @ the v @ '':'' @ hashKey lib input), w'))"

definition bumpProductsCacheVersion :: "'e Env_scheme \<Rightarrow> 'a World_scheme \<Rightarrow> (Error + unit) \<times> 'a World_scheme" where
  "bumpProductsCacheVersion env w =
     (if \<not> canUseCache env w then (Inr (), w)
      else case redisINCR VERSION_KEY w of
        (Inl e, w') \<Rightarrow> (Inl e, w')
      | (Inr n, w') \<Rightarrow> (Inr (), w'))"

definition versionOf :: "'a World_scheme \<Rightarrow> int" where
  "versionOf w = (case live w VERSION_KEY of None \<Rightarrow> 0 | Some s \<Rightarrow> (case string2ll s of None \<Rightarrow> 0 | Some n \<Rightarrow> n))"

definition versionOk :: "'a World_scheme \<Rightarrow> bool" where
  "versionOk w =
     (case kv w VERSION_KEY of
        None \<Rightarrow> True
      | Some (s, e) \<Rightarrow> e = None \<and> (case string2ll s of None \<Rightarrow> False | Some n \<Rightarrow> 0 < n))"

datatype CacheOp = ListKey json | Bump

fun runOp :: "'b Builtins_scheme \<Rightarrow> 'e Env_scheme \<Rightarrow> CacheOp \<Rightarrow> 'a World_scheme \<Rightarrow> (json \<times> string) list \<times> 'a World_scheme" where
  "runOp lib env (ListKey input) w =
     (case getProductsListCacheKey lib env input w of
        (None, w') \<Rightarrow> ([], w')
      | (Some k, w') \<Rightarrow> ([(input, k)], w'))"
| "runOp lib env Bump w = ([], snd (bumpProductsCacheVersion env w))"

fun runOps :: "'b Builtins_scheme \<Rightarrow> 'e Env_scheme \<Rightarrow> CacheOp list \<Rightarrow> 'a World_scheme \<Rightarrow> (json \<times> string) list \<times> 'a World_scheme" where
  "runOps lib env [] w = ([], w)"
| "runOps lib env (op # ops) w =
     (case runOp lib env op w of
        (ks, w') \<Rightarrow> (case runOps lib env ops w' of (ks', w'') \<Rightarrow> (ks @ ks', w'')))"

definition listKey :: "'b Builtins_scheme \<Rightarrow> int \<Rightarrow> json \<Rightarrow> string" where
  "listKey lib n input = ''products:list:v'' @ ll2string n @ '':'' @ hashKey lib input"

definition exampleParams :: json where
  "exampleParams = JObj [(''limit'', JNum (Fin 20)), (''sortBy'', JStr ''price'')]"

definition versionOneWorld :: World where
  "versionOneWorld =
     emptyWorld\<lparr> kv := [VERSION_KEY \<mapsto> (''1'', None)],
       trace := [RedisSET VERSION_KEY ''1'' None True, RedisGET VERSION_KEY (Some ''1'')] \<rparr>"

definition versionTwoWorld :: World where
  "versionTwoWorld =
     versionOneWorld\<lparr> kv := [VERSION_KEY \<mapsto> (''2'', None)],
       trace := trace versionOneWorld @ [RedisINCR VERSION_KEY] \<rparr>"


subsection \<open>A bump makes every earlier key unreachable\<close>

lemma string2ll_Some: "string2ll s = Some n \<Longrightarrow> s = ll2string n"
  by (auto simp: string2ll_def ll2string_def split: list.splits option.splits if_splits
           dest!: canonicalNat_Some)


lemma ll2string_1: "ll2string 1 = ''1''"
  by (simp add: ll2string_def showNat.simps digitChar_def)

lemma string2ll_1: "string2ll ''1'' = Some 1"
  by (simp add: string2ll_def canonicalNat_def digitVal_def showNat.simps digitChar_def)

lemma string2ll_range: "string2ll s = Some n \<Longrightarrow> - 9223372036854775808 \<le> n \<and> n \<le> 9223372036854775807"
  by (auto simp: string2ll_def split: list.splits option.splits if_splits)

lemma canUseCache_frame [simp]:
  "canUseCache env (w\<lparr> kv := m \<rparr>) = canUseCache env w"
  "canUseCache env (w\<lparr> trace := t \<rparr>) = canUseCache env w"
  by (simp_all add: canUseCache_def)

lemma getVersion_spec:
  assumes "canUseCache env w" "versionOk w"
  shows "\<exists>w'. getVersion env w = (Some (ll2string (versionOf w')), w') \<and>
           versionOk w' \<and> canUseCache env w' \<and> versionOf w \<le> versionOf w' \<and> 1 \<le> versionOf w' \<and>
           versionOf w' \<le> 9223372036854775807 \<and>
           (\<forall>k. k \<noteq> VERSION_KEY \<longrightarrow> kv w' k = kv w k)"
proof (cases "kv w VERSION_KEY")
  case None
  let ?w' = "w\<lparr> kv := (kv w)(VERSION_KEY \<mapsto> (''1'', None)),
               trace := trace w @ [RedisSET VERSION_KEY ''1'' None True, RedisGET VERSION_KEY (Some ''1'')] \<rparr>"
  have l: "live w VERSION_KEY = None" using None by (simp add: live_def)
  have g: "getVersion env w = (Some ''1'', ?w')"
    using assms(1) l by (simp add: getVersion_def redisSET_def redisGET_def live_def)
  have v: "versionOf ?w' = 1" by (simp add: versionOf_def live_def string2ll_1)
  have "versionOf w = 0" using l by (simp add: versionOf_def)
  moreover have "versionOk ?w'" by (simp add: versionOk_def string2ll_1)
  ultimately show ?thesis using g v assms(1)
    by (intro exI[of _ ?w']) (simp add: ll2string_1)
next
  case (Some p)
  obtain s e where p: "p = (s, e)" by (cases p)
  from assms(2) Some p obtain n where n: "e = None" "string2ll s = Some n" "0 < n"
    by (auto simp: versionOk_def split: option.splits)
  let ?w' = "w\<lparr> trace := trace w @ [RedisSET VERSION_KEY ''1'' None True, RedisGET VERSION_KEY (Some s)] \<rparr>"
  have l: "live w VERSION_KEY = Some s" using Some p n by (simp add: live_def)
  have g: "getVersion env w = (Some s, ?w')"
    using assms(1) l by (simp add: getVersion_def redisSET_def redisGET_def)
  have v: "versionOf ?w' = n" "versionOf w = n" using l n by (simp_all add: versionOf_def)
  have "versionOk ?w'" using assms(2) by (simp add: versionOk_def)
  moreover have "s = ll2string n" using n(2) by (rule string2ll_Some)
  moreover have "n \<le> 9223372036854775807" using string2ll_range[OF n(2)] by simp
  ultimately show ?thesis using g v assms(1) n(3)
    by (intro exI[of _ ?w']) simp
qed

lemma bump_spec:
  assumes "canUseCache env w" "versionOk w"
  shows "\<exists>r w'. bumpProductsCacheVersion env w = (r, w') \<and>
           versionOk w' \<and> canUseCache env w' \<and>
           versionOf w' = (if r = Inr () then versionOf w + 1 else versionOf w) \<and>
           trace w' = trace w @ [RedisINCR VERSION_KEY] \<and>
           (\<forall>k. k \<noteq> VERSION_KEY \<longrightarrow> kv w' k = kv w k)"
proof (cases "kv w VERSION_KEY")
  case None
  let ?w' = "w\<lparr> trace := trace w @ [RedisINCR VERSION_KEY], kv := (kv w)(VERSION_KEY \<mapsto> (''1'', None)) \<rparr>"
  have b: "bumpProductsCacheVersion env w = (Inr (), ?w')"
    using assms(1) None by (simp add: bumpProductsCacheVersion_def redisINCR_def ll2string_1)
  have "versionOf ?w' = 1" by (simp add: versionOf_def live_def string2ll_1)
  moreover have "versionOf w = 0" using None by (simp add: versionOf_def live_def)
  moreover have "versionOk ?w'" by (simp add: versionOk_def string2ll_1)
  ultimately show ?thesis using b assms(1)
    by (intro exI[of _ "Inr ()"] exI[of _ ?w']) simp
next
  case (Some p)
  obtain s e where p: "p = (s, e)" by (cases p)
  from assms(2) Some p obtain n where n: "e = None" "string2ll s = Some n" "0 < n"
    by (auto simp: versionOk_def split: option.splits)
  have l: "live w VERSION_KEY = Some s" using Some p n by (simp add: live_def)
  have vw: "versionOf w = n" using l n by (simp add: versionOf_def)
  show ?thesis
  proof (cases "n = 9223372036854775807")
    case True
    let ?w' = "w\<lparr> trace := trace w @ [RedisINCR VERSION_KEY] \<rparr>"
    have "bumpProductsCacheVersion env w =
            (Inl (ReplyError ''ERR increment or decrement would overflow''), ?w')"
      using assms(1) Some p n l True by (simp add: bumpProductsCacheVersion_def redisINCR_def)
    moreover have "versionOk ?w'" using assms(2) by (simp add: versionOk_def)
    moreover have "versionOf ?w' = versionOf w" by (simp add: versionOf_def)
    ultimately show ?thesis using assms(1)
      by (intro exI[of _ "Inl (ReplyError ''ERR increment or decrement would overflow'')"] exI[of _ ?w']) simp
  next
    case False
    let ?w' = "w\<lparr> trace := trace w @ [RedisINCR VERSION_KEY],
                 kv := (kv w)(VERSION_KEY \<mapsto> (ll2string (n + 1), None)) \<rparr>"
    have b: "bumpProductsCacheVersion env w = (Inr (), ?w')"
      using assms(1) Some p n l False by (simp add: bumpProductsCacheVersion_def redisINCR_def)
    have r: "string2ll (ll2string (n + 1)) = Some (n + 1)"
      using string2ll_range[OF n(2)] False n(3) by (intro string2ll_ll2string) simp_all
    have "versionOf ?w' = n + 1" using r by (simp add: versionOf_def live_def)
    moreover have "versionOk ?w'" using r n(3) by (simp add: versionOk_def)
    ultimately show ?thesis using b assms(1) vw
      by (intro exI[of _ "Inr ()"] exI[of _ ?w']) simp
  qed
qed

lemma runOp_spec:
  assumes "canUseCache env w" "versionOk w"
  shows "\<exists>ks w'. runOp lib env op w = (ks, w') \<and> versionOk w' \<and> canUseCache env w' \<and>
           versionOf w \<le> versionOf w' \<and>
           (\<forall>(input, k) \<in> set ks. \<exists>n. k = listKey lib n input \<and> 1 \<le> n \<and> n \<le> 9223372036854775807 \<and>
               versionOf w \<le> n \<and> n \<le> versionOf w')"
proof (cases op)
  case (ListKey input)
  from getVersion_spec[OF assms] obtain w' where g:
    "getVersion env w = (Some (ll2string (versionOf w')), w')" "versionOk w'" "canUseCache env w'"
    "versionOf w \<le> versionOf w'" "1 \<le> versionOf w'" "versionOf w' \<le> 9223372036854775807"
    by blast
  have ne: "ll2string (versionOf w') \<noteq> []"
    using showNat_nonempty by (simp add: ll2string_def)
  have "runOp lib env op w = ([(input, listKey lib (versionOf w') input)], w')"
    using ListKey g(1) ne by (simp add: getProductsListCacheKey_def listKey_def)
  then show ?thesis using g by (intro exI[of _ "[(input, listKey lib (versionOf w') input)]"] exI[of _ w']) auto
next
  case Bump
  from bump_spec[OF assms] obtain r w' where b:
    "bumpProductsCacheVersion env w = (r, w')" "versionOk w'" "canUseCache env w'"
    "versionOf w' = (if r = Inr () then versionOf w + 1 else versionOf w)"
    by blast
  then show ?thesis using Bump by (intro exI[of _ "[]"] exI[of _ w']) auto
qed

lemma runOps_spec:
  assumes "canUseCache env w" "versionOk w"
  shows "\<exists>ks w'. runOps lib env ops w = (ks, w') \<and> versionOk w' \<and> canUseCache env w' \<and>
           versionOf w \<le> versionOf w' \<and>
           (\<forall>(input, k) \<in> set ks. \<exists>n. k = listKey lib n input \<and> 1 \<le> n \<and> n \<le> 9223372036854775807 \<and>
               versionOf w \<le> n \<and> n \<le> versionOf w')"
  using assms
proof (induction ops arbitrary: w)
  case Nil
  then show ?case by simp
next
  case (Cons op ops)
  from runOp_spec[OF Cons.prems, of lib op] obtain ks1 w1 where 1:
    "runOp lib env op w = (ks1, w1)" "versionOk w1" "canUseCache env w1" "versionOf w \<le> versionOf w1"
    "\<forall>(input, k) \<in> set ks1. \<exists>n. k = listKey lib n input \<and> 1 \<le> n \<and> n \<le> 9223372036854775807 \<and>
               versionOf w \<le> n \<and> n \<le> versionOf w1"
    by blast
  from Cons.IH[OF 1(3,2)] obtain ks2 w2 where 2:
    "runOps lib env ops w1 = (ks2, w2)" "versionOk w2" "canUseCache env w2" "versionOf w1 \<le> versionOf w2"
    "\<forall>(input, k) \<in> set ks2. \<exists>n. k = listKey lib n input \<and> 1 \<le> n \<and> n \<le> 9223372036854775807 \<and>
               versionOf w1 \<le> n \<and> n \<le> versionOf w2"
    by blast
  have "runOps lib env (op # ops) w = (ks1 @ ks2, w2)" using 1(1) 2(1) by simp
  moreover have "\<forall>(input, k) \<in> set (ks1 @ ks2). \<exists>n. k = listKey lib n input \<and> 1 \<le> n \<and>
      n \<le> 9223372036854775807 \<and> versionOf w \<le> n \<and> n \<le> versionOf w2"
    using 1(4,5) 2(4,5) by fastforce
  ultimately show ?case using 2(2,3) 1(4) 2(4) by (intro exI[of _ "ks1 @ ks2"] exI[of _ w2]) simp
qed

lemma listKey_inject:
  assumes "listKey lib n input = listKey lib m input"
    "1 \<le> n" "n \<le> 9223372036854775807" "1 \<le> m" "m \<le> 9223372036854775807"
  shows "n = m"
proof -
  have "ll2string n = ll2string m" using assms(1) by (simp add: listKey_def)
  then have "string2ll (ll2string n) = string2ll (ll2string m)" by simp
  then show ?thesis using assms(2-5) by (simp add: string2ll_ll2string)
qed

lemma ll2string_2: "ll2string 2 = ''2''"
  by (simp add: ll2string_def showNat.simps digitChar_def)


text \<open>
  Claim C7. With the cache backend up, take any history before a bump that succeeds and any
  history after it. A key produced after the bump for some parameters differs from every key
  produced before it for the same parameters, and its version segment is strictly larger. The
  counter never decreases along the way. The bump sends one \<open>INCR\<close> and nothing else, and
  leaves every key other than the counter as it was: no entry is deleted.
\<close>

theorem bump_invalidates_keys:
  assumes "canUseCache env w0" and "versionOk w0"
    and "runOps lib env ops1 w0 = (ks1, w1)"
    and "bumpProductsCacheVersion env w1 = (Inr (), w2)"
    and "runOps lib env ops2 w2 = (ks2, w3)"
    and "(input, k1) \<in> set ks1" and "(input, k2) \<in> set ks2"
  shows "(\<exists>n1 n2. k1 = listKey lib n1 input \<and> k2 = listKey lib n2 input \<and> n1 < n2) \<and> k1 \<noteq> k2 \<and>
         versionOf w0 \<le> versionOf w1 \<and> versionOf w1 < versionOf w2 \<and> versionOf w2 \<le> versionOf w3 \<and>
         trace w2 = trace w1 @ [RedisINCR VERSION_KEY] \<and>
         (\<forall>k. k \<noteq> VERSION_KEY \<longrightarrow> kv w2 k = kv w1 k)"
proof -
  from runOps_spec[OF assms(1,2), of lib ops1] assms(3) have 1:
    "versionOk w1" "canUseCache env w1" "versionOf w0 \<le> versionOf w1"
    "\<forall>(input, k) \<in> set ks1. \<exists>n. k = listKey lib n input \<and> 1 \<le> n \<and> n \<le> 9223372036854775807 \<and>
               versionOf w0 \<le> n \<and> n \<le> versionOf w1"
    by auto
  from bump_spec[OF 1(2,1)] assms(4) have 2:
    "versionOk w2" "canUseCache env w2" "versionOf w2 = versionOf w1 + 1"
    "trace w2 = trace w1 @ [RedisINCR VERSION_KEY]" "\<forall>k. k \<noteq> VERSION_KEY \<longrightarrow> kv w2 k = kv w1 k"
    by auto
  from runOps_spec[OF 2(2,1), of lib ops2] assms(5) have 3:
    "versionOf w2 \<le> versionOf w3"
    "\<forall>(input, k) \<in> set ks2. \<exists>n. k = listKey lib n input \<and> 1 \<le> n \<and> n \<le> 9223372036854775807 \<and>
               versionOf w2 \<le> n \<and> n \<le> versionOf w3"
    by auto
  from 1(4) assms(6) obtain n1 where n1: "k1 = listKey lib n1 input" "1 \<le> n1"
    "n1 \<le> 9223372036854775807" "n1 \<le> versionOf w1" by auto
  from 3(2) assms(7) obtain n2 where n2: "k2 = listKey lib n2 input" "1 \<le> n2"
    "n2 \<le> 9223372036854775807" "versionOf w2 \<le> n2" by auto
  have lt: "n1 < n2" using n1(4) n2(4) 2(3) by simp
  have "k1 \<noteq> k2"
  proof
    assume "k1 = k2"
    then have "n1 = n2" using n1 n2 by (intro listKey_inject[of lib n1 input n2]) simp_all
    then show False using lt by simp
  qed
  then show ?thesis using n1(1) n2(1) lt 1(3) 2(3,4,5) 3(1) by auto
qed

theorem bump_invalidates_keys_witness:
  "canUseCache exampleEnv emptyWorld \<and> versionOk emptyWorld \<and>
   runOps exampleBuiltins exampleEnv [ListKey exampleParams] emptyWorld =
     ([(exampleParams, listKey exampleBuiltins 1 exampleParams)], versionOneWorld) \<and>
   bumpProductsCacheVersion exampleEnv versionOneWorld = (Inr (), versionTwoWorld) \<and>
   fst (runOps exampleBuiltins exampleEnv [ListKey exampleParams] versionTwoWorld) =
     [(exampleParams, listKey exampleBuiltins 2 exampleParams)] \<and>
   listKey exampleBuiltins 1 exampleParams \<noteq> listKey exampleBuiltins 2 exampleParams \<and>
   versionOf versionOneWorld < versionOf versionTwoWorld \<and>
   trace versionTwoWorld = trace versionOneWorld @ [RedisINCR VERSION_KEY]"
proof -
  have h1: "canUseCache exampleEnv emptyWorld" "versionOk emptyWorld"
    by (simp_all add: canUseCache_def exampleEnv_def emptyWorld_def versionOk_def)
  have h2: "runOps exampleBuiltins exampleEnv [ListKey exampleParams] emptyWorld =
     ([(exampleParams, listKey exampleBuiltins 1 exampleParams)], versionOneWorld)"
    by (simp add: getProductsListCacheKey_def getVersion_def canUseCache_def exampleEnv_def
        emptyWorld_def versionOneWorld_def redisSET_def redisGET_def live_def listKey_def ll2string_1)
  have h3: "bumpProductsCacheVersion exampleEnv versionOneWorld = (Inr (), versionTwoWorld)"
    by (simp add: bumpProductsCacheVersion_def canUseCache_def exampleEnv_def emptyWorld_def
        versionOneWorld_def versionTwoWorld_def redisINCR_def live_def string2ll_1 ll2string_2)
  obtain ks2 w3 where h4: "runOps exampleBuiltins exampleEnv [ListKey exampleParams] versionTwoWorld = (ks2, w3)"
    by (cases "runOps exampleBuiltins exampleEnv [ListKey exampleParams] versionTwoWorld")
  have ks2: "ks2 = [(exampleParams, listKey exampleBuiltins 2 exampleParams)]"
    using h4
    by (simp add: getProductsListCacheKey_def getVersion_def canUseCache_def exampleEnv_def
        emptyWorld_def versionOneWorld_def versionTwoWorld_def redisSET_def redisGET_def live_def
        listKey_def ll2string_2)
  have m1: "(exampleParams, listKey exampleBuiltins 1 exampleParams)
            \<in> set [(exampleParams, listKey exampleBuiltins 1 exampleParams)]" by simp
  have m2: "(exampleParams, listKey exampleBuiltins 2 exampleParams) \<in> set ks2"
    using ks2 by simp
  from bump_invalidates_keys[OF h1 h2 h3 h4 m1 m2]
  have "listKey exampleBuiltins 1 exampleParams \<noteq> listKey exampleBuiltins 2 exampleParams"
    "versionOf versionOneWorld < versionOf versionTwoWorld"
    "trace versionTwoWorld = trace versionOneWorld @ [RedisINCR VERSION_KEY]"
    by simp_all
  then show ?thesis using h1 h2 h3 h4 ks2 by simp
qed


section \<open>The circuit breaker of external API A: \<open>services/externalApiA.ts\<close>\<close>

























subsection \<open>The states of the breaker\<close>















section \<open>The products endpoint: \<open>controllers/productsController.ts\<close>\<close>

text \<open>
  A request is the query string: each parameter is absent or a string. The library functions the
  controller calls are further fields of the record of built-ins: \<open>Number\<close> on a string,
  \<open>new Date\<close> on a string (\<open>None\<close> for an invalid date), base64url in both directions, the text
  of a \<open>DECIMAL\<close>, the number the SQL engine reads in a parameter that is not a finite number,
  and the engine's full-text match.

  \<open>querySchema\<close> is the zod schema: \<open>limit\<close>, \<open>sortBy\<close> and \<open>sortOrder\<close> fall back on a default
  (\<open>catch\<close>), the other parameters are optional and make \<open>parse\<close> throw a \<open>ZodError\<close> when they are
  present and invalid. \<open>validate\<close> is \<open>getProductsController\<close> up to the line before
  \<open>getDbPool()\<close>; it touches neither the store nor the database. The rest of the controller
  asks for the cache key, and computes the page under \<open>withCache\<close>, or directly when there is no
  key; the query takes its time, as any wait does. One request runs at a time here, so
  \<open>dedupeInFlight\<close> finds nothing in flight and \<open>deduped\<close> is false. The body is the response
  object.
\<close>

record ControllerLib = JsonLib +
  Number :: "string \<Rightarrow> number"
  Date_parse :: "string \<Rightarrow> int option"
  base64urlDecode :: "string \<Rightarrow> string"
  base64urlEncode :: "string \<Rightarrow> string"
  decimalText :: "rat \<Rightarrow> string"
  sqlNumber :: "json \<Rightarrow> rat"
  fullText :: "string \<Rightarrow> ProductRow \<Rightarrow> bool"

record RawQuery =
  r_limit :: "string option"
  r_sortBy :: "string option"
  r_sortOrder :: "string option"
  r_q :: "string option"
  r_category :: "string option"
  r_minPrice :: "string option"
  r_maxPrice :: "string option"
  r_createdFrom :: "string option"
  r_createdTo :: "string option"
  r_cursor :: "string option"

record Parsed =
  parsed_limit :: int
  parsed_sortBy :: ProductSortBy
  parsed_sortOrder :: SortOrder
  parsed_q :: "string option"
  parsed_category :: "string option"
  parsed_minPrice :: "number option"
  parsed_maxPrice :: "number option"
  parsed_createdFrom :: "string option"
  parsed_createdTo :: "string option"
  parsed_cursor :: "string option"

text \<open>The comparisons of JavaScript numbers.\<close>

fun numLess :: "number \<Rightarrow> number \<Rightarrow> bool" where
  "numLess (Fin a) (Fin b) = (a < b)"
| "numLess NegInf (Fin b) = True"
| "numLess NegInf PosInf = True"
| "numLess (Fin a) PosInf = True"
| "numLess _ _ = False"

definition limitSchema :: "'a ControllerLib_scheme \<Rightarrow> string option \<Rightarrow> int" where
  "limitSchema lib raw =
     (case (case raw of None \<Rightarrow> NaN | Some s \<Rightarrow> Number lib s) of
        Fin r \<Rightarrow> if of_int \<lfloor>r\<rfloor> = r \<and> 0 < r \<and> r \<le> 100 then \<lfloor>r\<rfloor> else 20
      | _ \<Rightarrow> 20)"

definition sortBySchema :: "string option \<Rightarrow> ProductSortBy" where
  "sortBySchema raw =
     (if raw = Some ''createdAt'' then CreatedAt
      else if raw = Some ''price'' then Price
      else if raw = Some ''name'' then Name
      else CreatedAt)"

definition sortOrderSchema :: "string option \<Rightarrow> SortOrder" where
  "sortOrderSchema raw =
     (if raw = Some ''asc'' then Asc else if raw = Some ''desc'' then Desc else Desc)"

definition stringSchema :: "string option \<Rightarrow> Error + string option" where
  "stringSchema raw = (case raw of None \<Rightarrow> Inr None | Some s \<Rightarrow> if s = [] then Inl ZodError else Inr (Some s))"

definition priceSchema :: "'a ControllerLib_scheme \<Rightarrow> string option \<Rightarrow> Error + number option" where
  "priceSchema lib raw =
     (case raw of
        None \<Rightarrow> Inr None
      | Some s \<Rightarrow>
          (let n = Number lib s
           in if n = NaN \<or> numLess n (Fin 0) then Inl ZodError else Inr (Some n)))"

definition querySchema :: "'a ControllerLib_scheme \<Rightarrow> RawQuery \<Rightarrow> Error + Parsed" where
  "querySchema lib raw =
     (case (stringSchema (r_q raw), stringSchema (r_category raw),
            priceSchema lib (r_minPrice raw), priceSchema lib (r_maxPrice raw),
            stringSchema (r_createdFrom raw), stringSchema (r_createdTo raw),
            stringSchema (r_cursor raw)) of
        (Inr q', Inr category', Inr minPrice', Inr maxPrice', Inr createdFrom', Inr createdTo', Inr cursor') \<Rightarrow>
          Inr \<lparr> parsed_limit = limitSchema lib (r_limit raw),
                parsed_sortBy = sortBySchema (r_sortBy raw),
                parsed_sortOrder = sortOrderSchema (r_sortOrder raw),
                parsed_q = q', parsed_category = category',
                parsed_minPrice = minPrice', parsed_maxPrice = maxPrice',
                parsed_createdFrom = createdFrom', parsed_createdTo = createdTo',
                parsed_cursor = cursor' \<rparr>
      | _ \<Rightarrow> Inl ZodError)"

definition sortByName :: "ProductSortBy \<Rightarrow> string" where
  "sortByName sb = (case sb of CreatedAt \<Rightarrow> ''createdAt'' | Price \<Rightarrow> ''price'' | Name \<Rightarrow> ''name'')"

definition sortOrderName :: "SortOrder \<Rightarrow> string" where
  "sortOrderName ord = (case ord of Asc \<Rightarrow> ''asc'' | Desc \<Rightarrow> ''desc'')"

text \<open>
  Reading a property of a decoded value: of \<open>null\<close> it throws a \<open>TypeError\<close>, of an object it is the
  property or \<open>undefined\<close> (\<open>None\<close>), of any other value it is \<open>undefined\<close> for the four names read.
\<close>

definition readProp :: "json \<Rightarrow> string \<Rightarrow> Error + json option" where
  "readProp v name =
     (case v of
        JNull \<Rightarrow> Inl TypeError
      | JObj ps \<Rightarrow> Inr (map_of ps name)
      | _ \<Rightarrow> Inr None)"

definition decodeCursor :: "'a ControllerLib_scheme \<Rightarrow> string \<Rightarrow> json option" where
  "decodeCursor lib raw = JSON_parse lib (base64urlDecode lib raw)"

definition colvalJson :: "'a ControllerLib_scheme \<Rightarrow> colval \<Rightarrow> json" where
  "colvalJson lib v =
     (case v of DateV t \<Rightarrow> JStr (toISOString lib t) | NumV p \<Rightarrow> JStr (decimalText lib p) | TextV s \<Rightarrow> JStr s)"

definition encodeCursor :: "'a ControllerLib_scheme \<Rightarrow> ProductSortBy \<Rightarrow> SortOrder \<Rightarrow> Cursor \<Rightarrow> string" where
  "encodeCursor lib sb ord c =
     base64urlEncode lib
       (JSON_stringify lib
          (JObj [(''sortBy'', JStr (sortByName sb)), (''sortOrder'', JStr (sortOrderName ord)),
                 (''v'', colvalJson lib (cur_v c)), (''id'', JNum (Fin (cur_id c)))]))"

definition toSqlNumber :: "'a ControllerLib_scheme \<Rightarrow> json \<Rightarrow> rat" where
  "toSqlNumber lib v = (case v of JNum (Fin r) \<Rightarrow> r | _ \<Rightarrow> sqlNumber lib v)"

definition cursorOfDecoded ::
  "'a ControllerLib_scheme \<Rightarrow> ProductSortBy \<Rightarrow> SortOrder \<Rightarrow> json \<Rightarrow> Error + Cursor" where
  "cursorOfDecoded lib sb ord decoded =
     (case (readProp decoded ''sortBy'', readProp decoded ''sortOrder'',
            readProp decoded ''id'', readProp decoded ''v'') of
        (Inr dSortBy, Inr dSortOrder, Inr dId, Inr dV) \<Rightarrow>
          if dSortBy \<noteq> Some (JStr (sortByName sb)) \<or> dSortOrder \<noteq> Some (JStr (sortOrderName ord))
          then Inl (AppError ''Cursor does not match sortBy/sortOrder'' 400)
          else (case dId of
                  Some (JNum (Fin i)) \<Rightarrow>
                    (case sb of
                       CreatedAt \<Rightarrow>
                         (case dV of
                            Some (JStr s) \<Rightarrow>
                              (case Date_parse lib s of
                                 None \<Rightarrow> Inl (AppError ''Invalid cursor value'' 400)
                               | Some t \<Rightarrow> Inr \<lparr> cur_v = DateV t, cur_id = i \<rparr>)
                          | _ \<Rightarrow> Inl (AppError ''Invalid cursor value'' 400))
                     | Price \<Rightarrow>
                         (case dV of
                            Some (JStr s) \<Rightarrow> Inr \<lparr> cur_v = NumV (toSqlNumber lib (JStr s)), cur_id = i \<rparr>
                          | Some (JNum n) \<Rightarrow> Inr \<lparr> cur_v = NumV (toSqlNumber lib (JNum n)), cur_id = i \<rparr>
                          | _ \<Rightarrow> Inl (AppError ''Invalid cursor value'' 400))
                     | Name \<Rightarrow>
                         (case dV of
                            Some (JStr s) \<Rightarrow> Inr \<lparr> cur_v = TextV s, cur_id = i \<rparr>
                          | _ \<Rightarrow> Inl (AppError ''Invalid cursor value'' 400)))
                | _ \<Rightarrow> Inl (AppError ''Invalid cursor id'' 400))
      | _ \<Rightarrow> Inl TypeError)"


definition optJson :: "('a \<Rightarrow> json) \<Rightarrow> 'a option \<Rightarrow> json" where
  "optJson f x = (case x of None \<Rightarrow> JNull | Some a \<Rightarrow> f a)"

record Validated =
  v_parsed :: Parsed
  v_query :: ProductListQuery
  v_keyInput :: json

definition validate :: "'a ControllerLib_scheme \<Rightarrow> 'e Env_scheme \<Rightarrow> RawQuery \<Rightarrow> Error + Validated" where
  "validate lib env reqQuery =
     (if \<not> MYSQL_ENABLED env then Inl (AppError ''MySQL is disabled (MYSQL_ENABLED=false).'' 503)
      else case querySchema lib reqQuery of
        Inl e \<Rightarrow> Inl e
      | Inr parsed \<Rightarrow>
          if (case (parsed_minPrice parsed, parsed_maxPrice parsed) of
                (Some lo, Some hi) \<Rightarrow> numLess hi lo
              | _ \<Rightarrow> False)
          then Inl (AppError ''minPrice cannot be greater than maxPrice'' 400)
          else
            let createdFrom = map_option (Date_parse lib) (parsed_createdFrom parsed);
                createdTo = map_option (Date_parse lib) (parsed_createdTo parsed)
            in if createdFrom = Some None then Inl (AppError ''Invalid createdFrom'' 400)
               else if createdTo = Some None then Inl (AppError ''Invalid createdTo'' 400)
               else
                 (case (case parsed_cursor parsed of
                          None \<Rightarrow> Inr None
                        | Some c \<Rightarrow>
                            (case decodeCursor lib c of
                               None \<Rightarrow> Inl (AppError ''Invalid cursor'' 400)
                             | Some decoded \<Rightarrow>
                                 map_sum id Some
                                   (cursorOfDecoded lib (parsed_sortBy parsed) (parsed_sortOrder parsed) decoded))) of
                    Inl e \<Rightarrow> Inl e
                  | Inr cur \<Rightarrow>
                      Inr \<lparr> v_parsed = parsed,
                            v_query =
                              \<lparr> q_limit = parsed_limit parsed,
                                q_sortBy = parsed_sortBy parsed,
                                q_sortOrder = parsed_sortOrder parsed,
                                q_q = parsed_q parsed,
                                q_category = parsed_category parsed,
                                q_minPrice = map_option (\<lambda>n. toSqlNumber lib (JNum n)) (parsed_minPrice parsed),
                                q_maxPrice = map_option (\<lambda>n. toSqlNumber lib (JNum n)) (parsed_maxPrice parsed),
                                q_createdFrom = map_option the createdFrom,
                                q_createdTo = map_option the createdTo,
                                q_cursor = cur \<rparr>,
                            v_keyInput =
                              JObj [(''limit'', JNum (Fin (of_int (parsed_limit parsed)))),
                                    (''sortBy'', JStr (sortByName (parsed_sortBy parsed))),
                                    (''sortOrder'', JStr (sortOrderName (parsed_sortOrder parsed))),
                                    (''q'', optJson JStr (parsed_q parsed)),
                                    (''category'', optJson JStr (parsed_category parsed)),
                                    (''minPrice'', optJson JNum (parsed_minPrice parsed)),
                                    (''maxPrice'', optJson JNum (parsed_maxPrice parsed)),
                                    (''createdFrom'', optJson (\<lambda>t. JStr (toISOString lib (the t))) createdFrom),
                                    (''createdTo'', optJson (\<lambda>t. JStr (toISOString lib (the t))) createdTo),
                                    (''cursor'', optJson JStr (parsed_cursor parsed))] \<rparr>))"

definition itemJson :: "'a ControllerLib_scheme \<Rightarrow> ProductRow \<Rightarrow> json" where
  "itemJson lib r =
     JObj [(''id'', JNum (Fin (of_nat (p_id r)))),
           (''name'', JStr (p_name r)),
           (''description'', optJson JStr (p_description r)),
           (''price'', JStr (decimalText lib (p_price r))),
           (''category'', JStr (p_category r)),
           (''createdAt'', JStr (toISOString lib (p_createdAt r)))]"

definition responseBody :: "'a ControllerLib_scheme \<Rightarrow> Parsed \<Rightarrow> ProductPage \<Rightarrow> json" where
  "responseBody lib parsed page =
     JObj [(''items'', JArr (map (itemJson lib) (items page))),
           (''pageInfo'',
            JObj [(''limit'', JNum (Fin (of_int (parsed_limit parsed)))),
                  (''hasMore'', JBool (hasMore page)),
                  (''nextCursor'',
                   optJson (\<lambda>c. JStr (encodeCursor lib (parsed_sortBy parsed) (parsed_sortOrder parsed) c))
                     (nextCursor page))])]"

record ControllerResult =
  body :: json
  cacheStatus :: CacheStatus
  deduped :: bool

definition getProductsController ::
  "'a ControllerLib_scheme \<Rightarrow> 'e Env_scheme \<Rightarrow> string \<Rightarrow> ('w World_scheme \<Rightarrow> 'w World_scheme) \<Rightarrow>
   ProductRow list option \<Rightarrow> RawQuery \<Rightarrow> 'w World_scheme \<Rightarrow>
   ((Error + ControllerResult) \<times> 'w World_scheme) option" where
  "getProductsController lib env uuid others dbPool reqQuery w =
     (case validate lib env reqQuery of
        Inl e \<Rightarrow> Some (Inl e, w)
      | Inr v \<Rightarrow>
          (case dbPool of
             None \<Rightarrow> Some (Inl (Thrown ''Database pool not initialized''), w)
           | Some pool \<Rightarrow>
               (case getProductsListCacheKey lib env (v_keyInput v) w of
                  (cacheKey, w1) \<Rightarrow>
                    (let compute = (\<lambda>w. (Inr (responseBody lib (v_parsed v)
                                               (listProducts (fullText lib) pool (v_query v))),
                                         (await others 0 w)\<lparr> trace := trace w @ [SqlQuery] \<rparr>))
                     in case (if \<not> truthy cacheKey then Some (bypass (compute w1))
                              else withCache lib env uuid others (the cacheKey)
                                     (PRODUCTS_LIST_CACHE_TTL_SECONDS env) compute w1) of
                          None \<Rightarrow> None
                        | Some (Inl e, w2) \<Rightarrow> Some (Inl e, w2)
                        | Some (Inr (val, status), w2) \<Rightarrow>
                            Some (Inr \<lparr> body = val, cacheStatus = status, deduped = False \<rparr>, w2)))))"

text \<open>
  The status that \<open>errorHandler\<close> answers with: that of an \<open>AppError\<close>, and 500 for any other
  error.
\<close>

definition errorStatus :: "Error \<Rightarrow> nat" where
  "errorStatus e = (case e of AppError m code \<Rightarrow> code | _ \<Rightarrow> 500)"

text \<open>The conditions that claim C9 names, on a query that has passed the schema.\<close>

definition priceRangeInvalid :: "Parsed \<Rightarrow> bool" where
  "priceRangeInvalid parsed =
     (case (parsed_minPrice parsed, parsed_maxPrice parsed) of
        (Some lo, Some hi) \<Rightarrow> numLess hi lo
      | _ \<Rightarrow> False)"

definition unparseableDate :: "'a ControllerLib_scheme \<Rightarrow> string option \<Rightarrow> bool" where
  "unparseableDate lib x = (case x of None \<Rightarrow> False | Some s \<Rightarrow> Date_parse lib s = None)"

definition cursorUndecodable :: "'a ControllerLib_scheme \<Rightarrow> Parsed \<Rightarrow> bool" where
  "cursorUndecodable lib parsed =
     (case parsed_cursor parsed of None \<Rightarrow> False | Some c \<Rightarrow> decodeCursor lib c = None)"

definition cursorMismatch :: "'a ControllerLib_scheme \<Rightarrow> Parsed \<Rightarrow> bool" where
  "cursorMismatch lib parsed =
     (case parsed_cursor parsed of
        None \<Rightarrow> False
      | Some c \<Rightarrow>
          (case decodeCursor lib c of
             None \<Rightarrow> False
           | Some decoded \<Rightarrow>
               decoded \<noteq> JNull \<and>
               (readProp decoded ''sortBy'' \<noteq> Inr (Some (JStr (sortByName (parsed_sortBy parsed)))) \<or>
                readProp decoded ''sortOrder'' \<noteq> Inr (Some (JStr (sortOrderName (parsed_sortOrder parsed)))))))"

definition rejectionMessage :: "'a ControllerLib_scheme \<Rightarrow> Parsed \<Rightarrow> string" where
  "rejectionMessage lib parsed =
     (if priceRangeInvalid parsed then ''minPrice cannot be greater than maxPrice''
      else if unparseableDate lib (parsed_createdFrom parsed) then ''Invalid createdFrom''
      else if unparseableDate lib (parsed_createdTo parsed) then ''Invalid createdTo''
      else if cursorUndecodable lib parsed then ''Invalid cursor''
      else ''Cursor does not match sortBy/sortOrder'')"





definition exampleLib :: ControllerLib where
  "exampleLib =
     \<lparr> toISOString = (\<lambda>t. showNat (nat t)),
       numberToString = (\<lambda>r. showNat (nat \<lfloor>r\<rfloor>)),
       sha1hex = (\<lambda>s. s),
       JSON_parse =
         (\<lambda>s. if s = ''null'' then Some JNull
              else if s = ''1'' then Some (JNum (Fin 1))
              else if s = ''cursor minted under price''
              then Some (JObj [(''sortBy'', JStr ''price''), (''sortOrder'', JStr ''desc''),
                               (''v'', JStr ''10''), (''id'', JNum (Fin 1))])
              else None),
       Number = (\<lambda>s. case canonicalNat s of None \<Rightarrow> NaN | Some n \<Rightarrow> Fin (of_nat n)),
       Date_parse = (\<lambda>s. map_option int (canonicalNat s)),
       base64urlDecode = (\<lambda>s. if s = ''bnVsbA'' then ''null'' else if s = ''MQ'' then ''1'' else s),
       base64urlEncode = (\<lambda>s. s),
       decimalText = (\<lambda>r. showNat (nat \<lfloor>r\<rfloor>)),
       sqlNumber = (\<lambda>v. 0),
       fullText = (\<lambda>s r. True) \<rparr>"

definition emptyRequest :: RawQuery where
  "emptyRequest =
     \<lparr> r_limit = None, r_sortBy = None, r_sortOrder = None, r_q = None, r_category = None,
       r_minPrice = None, r_maxPrice = None, r_createdFrom = None, r_createdTo = None,
       r_cursor = None \<rparr>"

definition replayRequest :: RawQuery where
  "replayRequest = emptyRequest\<lparr> r_sortBy := Some ''name'', r_cursor := Some ''cursor minted under price'' \<rparr>"

definition badRangeRequest :: RawQuery where
  "badRangeRequest = emptyRequest\<lparr> r_minPrice := Some ''5'', r_maxPrice := Some ''1'' \<rparr>"



definition nullCursorRequest :: RawQuery where
  "nullCursorRequest = emptyRequest\<lparr> r_cursor := Some ''bnVsbA'' \<rparr>"

definition oneCursorRequest :: RawQuery where
  "oneCursorRequest = emptyRequest\<lparr> r_cursor := Some ''MQ'' \<rparr>"


subsection \<open>Rejections before any input or output\<close>

lemma readProp_not_null: "decoded \<noteq> JNull \<Longrightarrow> \<exists>x. readProp decoded name = Inr x"
  by (cases decoded) (simp_all add: readProp_def)

lemma cursorOfDecoded_mismatch:
  assumes "decoded \<noteq> JNull"
    "readProp decoded ''sortBy'' \<noteq> Inr (Some (JStr (sortByName sb))) \<or>
     readProp decoded ''sortOrder'' \<noteq> Inr (Some (JStr (sortOrderName ord)))"
  shows "cursorOfDecoded lib sb ord decoded = Inl (AppError ''Cursor does not match sortBy/sortOrder'' 400)"
proof -
  obtain a b c d where r: "readProp decoded ''sortBy'' = Inr a" "readProp decoded ''sortOrder'' = Inr b"
    "readProp decoded ''id'' = Inr c" "readProp decoded ''v'' = Inr d"
    using readProp_not_null[OF assms(1)] by metis
  then show ?thesis using assms(2) by (auto simp: cursorOfDecoded_def)
qed

lemma validate_rejects:
  assumes "MYSQL_ENABLED env" "querySchema lib reqQuery = Inr parsed"
    and "priceRangeInvalid parsed \<or> unparseableDate lib (parsed_createdFrom parsed) \<or>
         unparseableDate lib (parsed_createdTo parsed) \<or> cursorUndecodable lib parsed \<or>
         cursorMismatch lib parsed"
  shows "validate lib env reqQuery = Inl (AppError (rejectionMessage lib parsed) 400)"
proof (cases "priceRangeInvalid parsed")
  case True
  then show ?thesis using assms(1,2)
    by (simp add: validate_def rejectionMessage_def priceRangeInvalid_def)
next
  case p: False
  show ?thesis
  proof (cases "unparseableDate lib (parsed_createdFrom parsed)")
    case True
    then show ?thesis using assms(1,2) p
      by (auto simp: validate_def rejectionMessage_def priceRangeInvalid_def unparseableDate_def Let_def
          split: option.splits)
  next
    case f: False
    show ?thesis
    proof (cases "unparseableDate lib (parsed_createdTo parsed)")
      case True
      then show ?thesis using assms(1,2) p f
        by (auto simp: validate_def rejectionMessage_def priceRangeInvalid_def unparseableDate_def Let_def
            split: option.splits)
    next
      case t: False
      have dates: "map_option (Date_parse lib) (parsed_createdFrom parsed) \<noteq> Some None"
        "map_option (Date_parse lib) (parsed_createdTo parsed) \<noteq> Some None"
        using f t by (auto simp: unparseableDate_def split: option.splits)
      from assms(3) p f t have c: "cursorUndecodable lib parsed \<or> cursorMismatch lib parsed" by simp
      then obtain cur where cur: "parsed_cursor parsed = Some cur"
        by (auto simp: cursorUndecodable_def cursorMismatch_def split: option.splits)
      show ?thesis
      proof (cases "decodeCursor lib cur")
        case None
        then have "cursorUndecodable lib parsed" using cur by (simp add: cursorUndecodable_def)
        then show ?thesis using assms(1,2) p f t dates cur None
          by (simp add: validate_def rejectionMessage_def priceRangeInvalid_def Let_def)
      next
        case (Some decoded)
        then have nu: "\<not> cursorUndecodable lib parsed" using cur by (simp add: cursorUndecodable_def)
        then have "cursorMismatch lib parsed" using c by simp
        then have "cursorOfDecoded lib (parsed_sortBy parsed) (parsed_sortOrder parsed) decoded
                   = Inl (AppError ''Cursor does not match sortBy/sortOrder'' 400)"
          using cur Some by (intro cursorOfDecoded_mismatch) (auto simp: cursorMismatch_def)
        then show ?thesis using assms(1,2) p f t dates cur Some nu
          by (simp add: validate_def rejectionMessage_def priceRangeInvalid_def Let_def)
      qed
    qed
  qed
qed

text \<open>
  A cursor that decodes to JSON \<open>null\<close> (\<open>bnVsbA\<close> in base64url) passes \<open>decodeCursor\<close>; the read
  of \<open>decoded.sortBy\<close> that follows the \<open>try\<close> block then throws a \<open>TypeError\<close>.
\<close>

lemma null_cursor_type_error:
  assumes "MYSQL_ENABLED env" "querySchema lib reqQuery = Inr parsed"
    "\<not> priceRangeInvalid parsed" "\<not> unparseableDate lib (parsed_createdFrom parsed)"
    "\<not> unparseableDate lib (parsed_createdTo parsed)"
    "parsed_cursor parsed = Some c" "decodeCursor lib c = Some JNull"
  shows "getProductsController lib env uuid others dbPool reqQuery w = Some (Inl TypeError, w)"
proof -
  have dates: "map_option (Date_parse lib) (parsed_createdFrom parsed) \<noteq> Some None"
    "map_option (Date_parse lib) (parsed_createdTo parsed) \<noteq> Some None"
    using assms(4,5) by (auto simp: unparseableDate_def split: option.splits)
  have "cursorOfDecoded lib (parsed_sortBy parsed) (parsed_sortOrder parsed) JNull = Inl TypeError"
    by (simp add: cursorOfDecoded_def readProp_def)
  then have "validate lib env reqQuery = Inl TypeError"
    using assms dates by (simp add: validate_def priceRangeInvalid_def Let_def)
  then show ?thesis by (simp add: getProductsController_def)
qed

text \<open>
  Every other fault of the kinds listed, on a query that passes the schema and with MySQL
  enabled, is answered with an \<open>AppError\<close> of status 400 whose message names the first fault, and
  the world is as it was: nothing was sent to the store or to the database.
\<close>

lemma faults_rejected_before_io:
  assumes "MYSQL_ENABLED env" and "querySchema lib reqQuery = Inr parsed"
    and "priceRangeInvalid parsed \<or> unparseableDate lib (parsed_createdFrom parsed) \<or>
         unparseableDate lib (parsed_createdTo parsed) \<or> cursorUndecodable lib parsed \<or>
         cursorMismatch lib parsed"
  shows "getProductsController lib env uuid others dbPool reqQuery w =
           Some (Inl (AppError (rejectionMessage lib parsed) 400), w)"
  using validate_rejects[OF assms] by (simp add: getProductsController_def)

lemma exampleLib_Number:
  "Number exampleLib ''20'' = Fin 20" "Number exampleLib ''5'' = Fin 5" "Number exampleLib ''1'' = Fin 1"
  "Number exampleLib ''abc'' = NaN"
  by (simp_all add: exampleLib_def canonicalNat_def digitVal_def showNat.simps digitChar_def)

lemma emptyRequest_schema:
  "querySchema exampleLib (emptyRequest\<lparr> r_cursor := Some c \<rparr>) =
     (if c = [] then Inl ZodError
      else Inr \<lparr> parsed_limit = 20, parsed_sortBy = CreatedAt, parsed_sortOrder = Desc, parsed_q = None,
                 parsed_category = None, parsed_minPrice = None, parsed_maxPrice = None,
                 parsed_createdFrom = None, parsed_createdTo = None, parsed_cursor = Some c \<rparr>)"
  by (simp add: querySchema_def emptyRequest_def stringSchema_def priceSchema_def
      limitSchema_def sortBySchema_def sortOrderSchema_def)

text \<open>
  Two instances: a cursor minted under \<open>sortBy = price\<close> and replayed with \<open>sortBy = name\<close>, and
  a request with \<open>minPrice = 5\<close> and \<open>maxPrice = 1\<close>.
\<close>

lemma replayed_cursor_and_bad_range_rejected:
  "getProductsController exampleLib exampleEnv ''me'' (\<lambda>w. w) (Some []) replayRequest emptyWorld =
     Some (Inl (AppError ''Cursor does not match sortBy/sortOrder'' 400), emptyWorld) \<and>
   getProductsController exampleLib exampleEnv ''me'' (\<lambda>w. w) (Some []) badRangeRequest emptyWorld =
     Some (Inl (AppError ''minPrice cannot be greater than maxPrice'' 400), emptyWorld)"
proof -
  let ?parsed = "\<lparr> parsed_limit = 20, parsed_sortBy = Name, parsed_sortOrder = Desc, parsed_q = None,
           parsed_category = None, parsed_minPrice = None, parsed_maxPrice = None,
           parsed_createdFrom = None, parsed_createdTo = None,
           parsed_cursor = Some ''cursor minted under price'' \<rparr>"
  let ?range = "\<lparr> parsed_limit = 20, parsed_sortBy = CreatedAt, parsed_sortOrder = Desc, parsed_q = None,
           parsed_category = None, parsed_minPrice = Some (Fin 5), parsed_maxPrice = Some (Fin 1),
           parsed_createdFrom = None, parsed_createdTo = None, parsed_cursor = None \<rparr>"
  have e: "MYSQL_ENABLED exampleEnv" by (simp add: exampleEnv_def)
  have q: "querySchema exampleLib replayRequest = Inr ?parsed"
    by (simp add: querySchema_def replayRequest_def emptyRequest_def stringSchema_def priceSchema_def
        limitSchema_def sortBySchema_def sortOrderSchema_def)
  have d: "decodeCursor exampleLib ''cursor minted under price'' =
     Some (JObj [(''sortBy'', JStr ''price''), (''sortOrder'', JStr ''desc''),
                 (''v'', JStr ''10''), (''id'', JNum (Fin 1))])"
    by (simp add: decodeCursor_def exampleLib_def)
  have m: "cursorMismatch exampleLib ?parsed"
    by (simp add: cursorMismatch_def d readProp_def sortByName_def)
  have r: "rejectionMessage exampleLib ?parsed = ''Cursor does not match sortBy/sortOrder''"
    by (simp add: rejectionMessage_def priceRangeInvalid_def unparseableDate_def cursorUndecodable_def d)
  have "priceRangeInvalid ?parsed \<or> unparseableDate exampleLib (parsed_createdFrom ?parsed) \<or>
         unparseableDate exampleLib (parsed_createdTo ?parsed) \<or> cursorUndecodable exampleLib ?parsed \<or>
         cursorMismatch exampleLib ?parsed"
    using m by blast
  from faults_rejected_before_io[OF e q this, of "''me''" "\<lambda>w. w" "Some []" emptyWorld]
  have 1: "getProductsController exampleLib exampleEnv ''me'' (\<lambda>w. w) (Some []) replayRequest emptyWorld =
     Some (Inl (AppError ''Cursor does not match sortBy/sortOrder'' 400), emptyWorld)"
    using r by simp
  have q2: "querySchema exampleLib badRangeRequest = Inr ?range"
    by (simp add: querySchema_def badRangeRequest_def emptyRequest_def stringSchema_def priceSchema_def
        limitSchema_def sortBySchema_def sortOrderSchema_def exampleLib_Number Let_def)
  have p: "priceRangeInvalid ?range" by (simp add: priceRangeInvalid_def)
  have r2: "rejectionMessage exampleLib ?range = ''minPrice cannot be greater than maxPrice''"
    using p by (simp add: rejectionMessage_def)
  have "priceRangeInvalid ?range \<or> unparseableDate exampleLib (parsed_createdFrom ?range) \<or>
         unparseableDate exampleLib (parsed_createdTo ?range) \<or> cursorUndecodable exampleLib ?range \<or>
         cursorMismatch exampleLib ?range"
    using p by blast
  from faults_rejected_before_io[OF e q2 this, of "''me''" "\<lambda>w. w" "Some []" emptyWorld]
  have 2: "getProductsController exampleLib exampleEnv ''me'' (\<lambda>w. w) (Some []) badRangeRequest emptyWorld =
     Some (Inl (AppError ''minPrice cannot be greater than maxPrice'' 400), emptyWorld)"
    using r2 by simp
  show ?thesis using 1 2 by simp
qed

text \<open>
  Claim C9 says that a request whose cursor does not decode to a cursor is rejected with a
  client error. The code does not do so for the cursor \<open>bnVsbA\<close>, the base64url text of JSON
  \<open>null\<close>: \<open>JSON.parse\<close> accepts it, so the \<open>try\<close> block is left without an error, and the read
  of \<open>decoded.sortBy\<close> after it throws a \<open>TypeError\<close>, which the error handler answers with
  status 500. The cursor \<open>MQ\<close>, the base64url text of \<open>1\<close>, which is no more a cursor, is
  answered with status 400 and \<open>Cursor does not match sortBy/sortOrder\<close>. Nothing is sent to
  the store or the database in either case.
\<close>

theorem null_cursor_answers_500:
  "decodeCursor exampleLib ''bnVsbA'' = Some JNull \<and>
   getProductsController exampleLib exampleEnv ''me'' (\<lambda>w. w) (Some []) nullCursorRequest emptyWorld =
     Some (Inl TypeError, emptyWorld) \<and>
   errorStatus TypeError = 500 \<and>
   decodeCursor exampleLib ''MQ'' = Some (JNum (Fin 1)) \<and>
   getProductsController exampleLib exampleEnv ''me'' (\<lambda>w. w) (Some []) oneCursorRequest emptyWorld =
     Some (Inl (AppError ''Cursor does not match sortBy/sortOrder'' 400), emptyWorld) \<and>
   errorStatus (AppError ''Cursor does not match sortBy/sortOrder'' 400) = 400"
proof -
  have 1: "decodeCursor exampleLib ''bnVsbA'' = Some JNull"
    by (simp add: decodeCursor_def exampleLib_def)
  have q: "querySchema exampleLib nullCursorRequest =
     Inr \<lparr> parsed_limit = 20, parsed_sortBy = CreatedAt, parsed_sortOrder = Desc, parsed_q = None,
           parsed_category = None, parsed_minPrice = None, parsed_maxPrice = None,
           parsed_createdFrom = None, parsed_createdTo = None, parsed_cursor = Some ''bnVsbA'' \<rparr>"
    by (simp add: nullCursorRequest_def emptyRequest_schema)
  have 2: "getProductsController exampleLib exampleEnv ''me'' (\<lambda>w. w) (Some []) nullCursorRequest
       emptyWorld = Some (Inl TypeError, emptyWorld)"
    by (rule null_cursor_type_error[OF _ q _ _ _ _ 1])
       (simp_all add: exampleEnv_def priceRangeInvalid_def unparseableDate_def)
  have 3: "decodeCursor exampleLib ''MQ'' = Some (JNum (Fin 1))"
    by (simp add: decodeCursor_def exampleLib_def)
  let ?parsed = "\<lparr> parsed_limit = 20, parsed_sortBy = CreatedAt, parsed_sortOrder = Desc, parsed_q = None,
           parsed_category = None, parsed_minPrice = None, parsed_maxPrice = None,
           parsed_createdFrom = None, parsed_createdTo = None, parsed_cursor = Some ''MQ'' \<rparr>"
  have q1: "querySchema exampleLib oneCursorRequest = Inr ?parsed"
    by (simp add: oneCursorRequest_def emptyRequest_schema)
  have m: "cursorMismatch exampleLib ?parsed"
    by (simp add: cursorMismatch_def 3 readProp_def)
  have r: "rejectionMessage exampleLib ?parsed = ''Cursor does not match sortBy/sortOrder''"
    by (simp add: rejectionMessage_def priceRangeInvalid_def unparseableDate_def cursorUndecodable_def 3)
  have e: "MYSQL_ENABLED exampleEnv" by (simp add: exampleEnv_def)
  have "priceRangeInvalid ?parsed \<or> unparseableDate exampleLib (parsed_createdFrom ?parsed) \<or>
         unparseableDate exampleLib (parsed_createdTo ?parsed) \<or> cursorUndecodable exampleLib ?parsed \<or>
         cursorMismatch exampleLib ?parsed"
    using m by blast
  from faults_rejected_before_io[OF e q1 this, of "''me''" "\<lambda>w. w" "Some []" emptyWorld]
  have 4: "getProductsController exampleLib exampleEnv ''me'' (\<lambda>w. w) (Some []) oneCursorRequest emptyWorld =
     Some (Inl (AppError ''Cursor does not match sortBy/sortOrder'' 400), emptyWorld)"
    using r by simp
  show ?thesis using 1 2 3 4 by (simp add: errorStatus_def)
qed

subsection \<open>Defaults for \<open>limit\<close>, \<open>sortBy\<close> and \<open>sortOrder\<close>\<close>












end
